theory Spec2Isabelle
  imports Complex_Main "HOL-Library.Multiset"
begin

text \<open>
  A model of the vector store \<^verbatim>\<open>EnhancedVectorDatabase\<close> (insertion, filtered top-\<open>k\<close>
  search, metadata update, saving and loading) and of the text splitters of
  \<^verbatim>\<open>pdf_utils.py\<close> and \<^verbatim>\<open>youtube_utils.py\<close>. A method takes the store as its last
  argument and returns the store it leaves behind, next to its result where it has
  one; a method that can raise returns \<open>Inl\<close> of the error. The embedding provider, and
  with it \<^verbatim>\<open>search_by_text\<close> and the batch builders, are not modelled.
\<close>

section \<open>Python values and the operators the store applies to them\<close>

text \<open>
  Metadata is typed \<^verbatim>\<open>Dict[str, Any]\<close>. The values modelled here are the ones Python
  compares by value and that the loaders of the repository produce: \<^verbatim>\<open>None\<close>, booleans,
  integers, floats, strings, lists, tuples and dictionaries with string keys. A finite
  float is the real number it denotes (Python compares integers and floats exactly).
  The float \<^verbatim>\<open>nan\<close> is a value of its own: it is unordered and unequal to everything,
  itself included, but containment and the comparison of containers take an object
  to be equal to itself, so that a \<^verbatim>\<open>nan\<close> carries a number that names the object
  (\<^verbatim>\<open>math.nan\<close> is one object wherever it is used). Every other object equals itself
  anyway. The infinities and objects of other classes are outside the model. A
  dictionary is an association list in insertion order, as Python keeps it; a \<open>char\<close>
  stands for one code point of a Python string.
\<close>

datatype pyval =
    PNone
  | PBool bool
  | PInt int
  | PFloat real
  | PNaN nat
  | PStr string
  | PList "pyval list"
  | PTuple "pyval list"
  | PDict "(string \<times> pyval) list"

type_synonym dict = "(string \<times> pyval) list"

text \<open>
  \<^verbatim>\<open>bool\<close> is a subclass of \<^verbatim>\<open>int\<close>: booleans, integers and floats compare as numbers.
  \<open>num_of\<close> is the value of a number that has one; \<^verbatim>\<open>nan\<close> is a number without a value.
\<close>

fun num_of :: "pyval \<Rightarrow> real option" where
  "num_of (PBool b) = Some (if b then 1 else 0)"
| "num_of (PInt i) = Some (of_int i)"
| "num_of (PFloat r) = Some r"
| "num_of _ = None"

fun is_number :: "pyval \<Rightarrow> bool" where
  "is_number (PBool b) = True"
| "is_number (PInt i) = True"
| "is_number (PFloat r) = True"
| "is_number (PNaN n) = True"
| "is_number _ = False"

text \<open>\<^verbatim>\<open>a is b\<close>, where it can differ from \<^verbatim>\<open>a == b\<close> being true: on \<^verbatim>\<open>nan\<close> objects.\<close>

fun same_object :: "pyval \<Rightarrow> pyval \<Rightarrow> bool" where
  "same_object (PNaN m) (PNaN n) = (m = n)"
| "same_object _ _ = False"

text \<open>
  \<^verbatim>\<open>a == b\<close>: numbers by value (never equal when one is \<^verbatim>\<open>nan\<close>), strings, lists and
  tuples element by element, dictionaries by size and then key by key whatever the
  order; values of unrelated types are unequal. Elements of containers are compared
  by identity first. It never raises on these values.
\<close>

fun py_eq :: "pyval \<Rightarrow> pyval \<Rightarrow> bool"
  and seq_eq :: "pyval list \<Rightarrow> pyval list \<Rightarrow> bool"
  and items_eq :: "dict \<Rightarrow> dict \<Rightarrow> bool" where
  "py_eq PNone PNone = True"
| "py_eq (PStr s) (PStr t) = (s = t)"
| "py_eq (PList xs) (PList ys) = seq_eq xs ys"
| "py_eq (PTuple xs) (PTuple ys) = seq_eq xs ys"
| "py_eq (PDict xs) (PDict ys) = (length xs = length ys \<and> items_eq xs ys)"
| "py_eq a b = (case (num_of a, num_of b) of (Some m, Some n) \<Rightarrow> m = n | _ \<Rightarrow> False)"
| "seq_eq [] [] = True"
| "seq_eq (x # xs) (y # ys) = ((same_object x y \<or> py_eq x y) \<and> seq_eq xs ys)"
| "seq_eq _ _ = False"
| "items_eq [] ys = True"
| "items_eq ((k, v) # xs) ys =
     ((case map_of ys k of None \<Rightarrow> False | Some w \<Rightarrow> same_object v w \<or> py_eq v w)
      \<and> items_eq xs ys)"

text \<open>
  The four ordering operators. Python defines each of them separately on numbers
  (each is false when an operand is \<^verbatim>\<open>nan\<close>), on strings (by code point) and on
  sequences of one kind (the first pair of elements that are neither the same object
  nor equal decides, otherwise the lengths do); any other pair of operands raises
  \<^verbatim>\<open>TypeError\<close>, which is \<open>None\<close> here.
\<close>

datatype cmp_op = Lt | Le | Gt | Ge

fun cmp_num :: "cmp_op \<Rightarrow> real \<Rightarrow> real \<Rightarrow> bool" where
  "cmp_num Lt m n = (m < n)"
| "cmp_num Le m n = (m \<le> n)"
| "cmp_num Gt m n = (m > n)"
| "cmp_num Ge m n = (m \<ge> n)"

fun str_lt :: "string \<Rightarrow> string \<Rightarrow> bool" where
  "str_lt [] [] = False"
| "str_lt [] (d # t) = True"
| "str_lt (c # s) [] = False"
| "str_lt (c # s) (d # t) =
     (if (of_char c :: nat) < of_char d then True
      else if (of_char d :: nat) < of_char c then False
      else str_lt s t)"

fun cmp_str :: "cmp_op \<Rightarrow> string \<Rightarrow> string \<Rightarrow> bool" where
  "cmp_str Lt s t = str_lt s t"
| "cmp_str Le s t = (\<not> str_lt t s)"
| "cmp_str Gt s t = str_lt t s"
| "cmp_str Ge s t = (\<not> str_lt s t)"

fun py_cmp :: "cmp_op \<Rightarrow> pyval \<Rightarrow> pyval \<Rightarrow> bool option"
  and seq_cmp :: "cmp_op \<Rightarrow> pyval list \<Rightarrow> pyval list \<Rightarrow> bool option" where
  "py_cmp op (PStr s) (PStr t) = Some (cmp_str op s t)"
| "py_cmp op (PList xs) (PList ys) = seq_cmp op xs ys"
| "py_cmp op (PTuple xs) (PTuple ys) = seq_cmp op xs ys"
| "py_cmp op a b =
     (case (num_of a, num_of b) of
        (Some m, Some n) \<Rightarrow> Some (cmp_num op m n)
      | _ \<Rightarrow> if is_number a \<and> is_number b then Some False else None)"
| "seq_cmp op [] [] = Some (cmp_num op 0 0)"
| "seq_cmp op [] (y # ys) = Some (cmp_num op 0 1)"
| "seq_cmp op (x # xs) [] = Some (cmp_num op 1 0)"
| "seq_cmp op (x # xs) (y # ys) =
     (if same_object x y \<or> py_eq x y then seq_cmp op xs ys else py_cmp op x y)"

text \<open>
  \<^verbatim>\<open>x in c\<close>: identity or equality with an element of a list or tuple, substring on a
  string, key lookup
  on a dictionary (which hashes \<open>x\<close> first, so a list or dictionary there raises);
  \<^verbatim>\<open>TypeError\<close> (\<open>None\<close>) on a container that cannot be iterated.
\<close>

fun is_substring :: "string \<Rightarrow> string \<Rightarrow> bool" where
  "is_substring t [] = (t = [])"
| "is_substring t (c # s) = (take (length t) (c # s) = t \<or> is_substring t s)"

fun hashable :: "pyval \<Rightarrow> bool" and all_hashable :: "pyval list \<Rightarrow> bool" where
  "hashable (PList xs) = False"
| "hashable (PDict d) = False"
| "hashable (PTuple xs) = all_hashable xs"
| "hashable v = True"
| "all_hashable [] = True"
| "all_hashable (x # xs) = (hashable x \<and> all_hashable xs)"

fun py_in :: "pyval \<Rightarrow> pyval \<Rightarrow> bool option" where
  "py_in x (PList ys) = Some (list_ex (\<lambda>y. same_object x y \<or> py_eq x y) ys)"
| "py_in x (PTuple ys) = Some (list_ex (\<lambda>y. same_object x y \<or> py_eq x y) ys)"
| "py_in x (PStr s) = (case x of PStr t \<Rightarrow> Some (is_substring t s) | _ \<Rightarrow> None)"
| "py_in x (PDict d) =
     (if hashable x then Some (case x of PStr k \<Rightarrow> map_of d k \<noteq> None | _ \<Rightarrow> False)
      else None)"
| "py_in x c = None"

subsection \<open>Dictionary operations\<close>

text \<open>\<^verbatim>\<open>d[k] = v\<close> keeps the place of a key that is there and appends a new one.\<close>

fun dict_set :: "'k \<Rightarrow> 'v \<Rightarrow> ('k \<times> 'v) list \<Rightarrow> ('k \<times> 'v) list" where
  "dict_set k v [] = [(k, v)]"
| "dict_set k v ((k', v') # d) =
     (if k' = k then (k, v) # d else (k', v') # dict_set k v d)"

text \<open>\<^verbatim>\<open>d.get(k, default)\<close> reads without inserting, also on a \<^verbatim>\<open>defaultdict\<close>.\<close>

definition dict_get :: "('k \<times> 'v) list \<Rightarrow> 'k \<Rightarrow> 'v \<Rightarrow> 'v" where
  "dict_get d k dflt = (case map_of d k of None \<Rightarrow> dflt | Some v \<Rightarrow> v)"

text \<open>
  \<^verbatim>\<open>d[k]\<close> on a \<^verbatim>\<open>defaultdict\<close>: a missing key is first inserted with the value of the
  default factory.
\<close>

definition defaultdict_getitem ::
  "('k \<times> 'v) list \<Rightarrow> 'k \<Rightarrow> 'v \<Rightarrow> 'v \<times> ('k \<times> 'v) list" where
  "defaultdict_getitem d k dflt =
     (case map_of d k of None \<Rightarrow> (dflt, dict_set k dflt d) | Some v \<Rightarrow> (v, d))"

text \<open>\<^verbatim>\<open>d.update(other)\<close> assigns the items of \<open>other\<close> in their order.\<close>

fun dict_update :: "('k \<times> 'v) list \<Rightarrow> ('k \<times> 'v) list \<Rightarrow> ('k \<times> 'v) list" where
  "dict_update d [] = d"
| "dict_update d ((k, v) # other) = dict_update (dict_set k v d) other"

section \<open>The vector store\<close>

text \<open>
  \<^verbatim>\<open>EnhancedVectorDatabase\<close> holds two dictionaries, \<^verbatim>\<open>vectors\<close> and \<^verbatim>\<open>metadata\<close>, both
  keyed by the document text. A vector is a one-dimensional numeric array; its
  floating-point entries are modelled by real numbers, so rounding and overflow are
  outside the model.
\<close>

type_synonym vec = "real list"

record store =
  vectors :: "(string \<times> vec) list"
  metadata :: "(string \<times> dict) list"

datatype error =
    Unknown_distance_measure string "string list"
  | Shapes_not_aligned
  | Not_a_number
  | TypeError
  | KeyError string
  | Cannot_broadcast
  | AssertionError string
  | Range_step_zero

subsection \<open>\<^verbatim>\<open>_matches_filter\<close>\<close>

text \<open>
  Each test of the operator branch has the form
  \<^verbatim>\<open>if "$op" in filter_value and <comparison>: return False\<close>. \<open>op_test\<close> is the
  condition of one such \<^verbatim>\<open>if\<close>: \<open>Some True\<close> when the function returns \<^verbatim>\<open>False\<close> there,
  \<open>None\<close> when the comparison raises.
\<close>

definition op_test ::
  "dict \<Rightarrow> string \<Rightarrow> (pyval \<Rightarrow> bool option) \<Rightarrow> bool option" where
  "op_test filter_value name comparison =
     (case map_of filter_value name of None \<Rightarrow> Some False | Some bound \<Rightarrow> comparison bound)"

definition or_else :: "bool option \<Rightarrow> (error + bool) \<Rightarrow> error + bool" where
  "or_else rejected rest =
     (case rejected of None \<Rightarrow> Inl TypeError | Some True \<Rightarrow> Inr False | Some False \<Rightarrow> rest)"

text \<open>
  The body of the loop for one filter item whose key the document has: \<open>Inr False\<close>
  where the source returns \<^verbatim>\<open>False\<close>, \<open>Inr True\<close> where it goes on to the next item.
\<close>

fun check_value :: "pyval \<Rightarrow> pyval \<Rightarrow> error + bool" where
  "check_value doc_value (PDict filter_value) =
     or_else (op_test filter_value ''$gte'' (\<lambda>b. py_cmp Lt doc_value b))
    (or_else (op_test filter_value ''$lte'' (\<lambda>b. py_cmp Gt doc_value b))
    (or_else (op_test filter_value ''$gt'' (\<lambda>b. py_cmp Le doc_value b))
    (or_else (op_test filter_value ''$lt'' (\<lambda>b. py_cmp Ge doc_value b))
    (or_else (op_test filter_value ''$in'' (\<lambda>b. map_option Not (py_in doc_value b)))
    (or_else (op_test filter_value ''$nin'' (\<lambda>b. py_in doc_value b))
    (Inr True))))))"
| "check_value doc_value (PList filter_value) =
     or_else (map_option Not (py_in doc_value (PList filter_value))) (Inr True)"
| "check_value doc_value filter_value =
     or_else (Some (\<not> py_eq doc_value filter_value)) (Inr True)"

fun check_items :: "dict \<Rightarrow> dict \<Rightarrow> error + bool" where
  "check_items doc_metadata [] = Inr True"
| "check_items doc_metadata ((filter_key, filter_value) # rest) =
     (case map_of doc_metadata filter_key of
        None \<Rightarrow> Inr False
      | Some doc_value \<Rightarrow>
          (case check_value doc_value filter_value of
             Inl e \<Rightarrow> Inl e
           | Inr False \<Rightarrow> Inr False
           | Inr True \<Rightarrow> check_items doc_metadata rest))"

definition matches_filter :: "string \<Rightarrow> dict \<Rightarrow> store \<Rightarrow> (error + bool) \<times> store" where
  "matches_filter key metadata_filter st =
     (let doc_metadata = dict_get (metadata st) key []
      in (check_items doc_metadata metadata_filter, st))"


subsection \<open>The filter as a conjunction of tests\<close>

text \<open>
  What the loop of \<^verbatim>\<open>_matches_filter\<close> decides, without the order of its steps: an
  item of the filter admits a document when the document has the key and no test of
  the item rejects its value. For an operator mapping the tests are the comparisons
  of the source, \<^verbatim>\<open>doc_value < bound\<close> for \<^verbatim>\<open>$gte\<close> and so on, and each operator that is
  present has to evaluate, without raising, to false.
\<close>

definition op_admits :: "dict \<Rightarrow> string \<Rightarrow> (pyval \<Rightarrow> bool option) \<Rightarrow> bool" where
  "op_admits filter_value name rejects =
     (case map_of filter_value name of
        None \<Rightarrow> True
      | Some bound \<Rightarrow> rejects bound = Some False)"

fun value_admitted :: "pyval \<Rightarrow> pyval \<Rightarrow> bool" where
  "value_admitted doc_value (PDict filter_value) =
     (op_admits filter_value ''$gte'' (py_cmp Lt doc_value)
    \<and> op_admits filter_value ''$lte'' (py_cmp Gt doc_value)
    \<and> op_admits filter_value ''$gt'' (py_cmp Le doc_value)
    \<and> op_admits filter_value ''$lt'' (py_cmp Ge doc_value)
    \<and> op_admits filter_value ''$in'' (\<lambda>b. map_option Not (py_in doc_value b))
    \<and> op_admits filter_value ''$nin'' (py_in doc_value))"
| "value_admitted doc_value (PList filter_value) =
     (py_in doc_value (PList filter_value) = Some True)"
| "value_admitted doc_value filter_value = py_eq doc_value filter_value"

definition key_admitted :: "dict \<Rightarrow> string \<times> pyval \<Rightarrow> bool" where
  "key_admitted doc_metadata item =
     (case map_of doc_metadata (fst item) of
        None \<Rightarrow> False
      | Some doc_value \<Rightarrow> value_admitted doc_value (snd item))"

subsection \<open>The filter as the specification words it\<close>

text \<open>
  The specification reads a filter as a conjunction of positive tests: \<^verbatim>\<open>$gte\<close> is
  \<open>\<ge>\<close>, \<^verbatim>\<open>$lte\<close> is \<open>\<le>\<close>, \<^verbatim>\<open>$gt\<close> is \<open>>\<close>, \<^verbatim>\<open>$lt\<close> is \<open><\<close>, \<^verbatim>\<open>$in\<close> and \<^verbatim>\<open>$nin\<close> are
  membership and its negation. A test holds when it evaluates, without raising, to true.
\<close>

definition op_holds :: "dict \<Rightarrow> string \<Rightarrow> (pyval \<Rightarrow> bool option) \<Rightarrow> bool" where
  "op_holds filter_value name test =
     (case map_of filter_value name of None \<Rightarrow> True | Some bound \<Rightarrow> test bound = Some True)"

fun value_passes :: "pyval \<Rightarrow> pyval \<Rightarrow> bool" where
  "value_passes doc_value (PDict filter_value) =
     (op_holds filter_value ''$gte'' (py_cmp Ge doc_value)
    \<and> op_holds filter_value ''$lte'' (py_cmp Le doc_value)
    \<and> op_holds filter_value ''$gt'' (py_cmp Gt doc_value)
    \<and> op_holds filter_value ''$lt'' (py_cmp Lt doc_value)
    \<and> op_holds filter_value ''$in'' (py_in doc_value)
    \<and> op_holds filter_value ''$nin'' (\<lambda>b. map_option Not (py_in doc_value b)))"
| "value_passes doc_value (PList filter_value) =
     (py_in doc_value (PList filter_value) = Some True)"
| "value_passes doc_value filter_value = py_eq doc_value filter_value"

definition key_passes :: "dict \<Rightarrow> string \<times> pyval \<Rightarrow> bool" where
  "key_passes doc_metadata item =
     (case map_of doc_metadata (fst item) of
        None \<Rightarrow> False
      | Some doc_value \<Rightarrow> value_passes doc_value (snd item))"

text \<open>The two readings differ on \<^verbatim>\<open>nan\<close> only. A value is free of it when no part is one.\<close>

fun nan_free :: "pyval \<Rightarrow> bool"
  and all_nan_free :: "pyval list \<Rightarrow> bool"
  and items_nan_free :: "dict \<Rightarrow> bool" where
  "nan_free (PNaN n) = False"
| "nan_free (PList xs) = all_nan_free xs"
| "nan_free (PTuple xs) = all_nan_free xs"
| "nan_free (PDict d) = items_nan_free d"
| "nan_free v = True"
| "all_nan_free [] = True"
| "all_nan_free (x # xs) = (nan_free x \<and> all_nan_free xs)"
| "items_nan_free [] = True"
| "items_nan_free ((k, v) # d) = (nan_free v \<and> items_nan_free d)"

fun neg_op :: "cmp_op \<Rightarrow> cmp_op" where
  "neg_op Lt = Ge"
| "neg_op Le = Gt"
| "neg_op Gt = Le"
| "neg_op Ge = Lt"

subsection \<open>Distance metrics\<close>

text \<open>
  \<^verbatim>\<open>np.dot\<close> of two one-dimensional arrays raises \<^verbatim>\<open>ValueError\<close> unless they have the
  same length. The difference of two arrays broadcasts an array of length one over
  the other and raises \<^verbatim>\<open>ValueError\<close> on any other pair of different lengths.
\<close>

definition np_dot :: "vec \<Rightarrow> vec \<Rightarrow> error + real" where
  "np_dot a b =
     (if length a = length b then Inr (sum_list (map2 (*) a b)) else Inl Shapes_not_aligned)"

definition np_subtract :: "vec \<Rightarrow> vec \<Rightarrow> error + vec" where
  "np_subtract a b =
     (if length a = length b then Inr (map2 (-) a b)
      else if length a = 1 then Inr (map (\<lambda>y. hd a - y) b)
      else if length b = 1 then Inr (map (\<lambda>x. x - hd b) a)
      else Inl Cannot_broadcast)"

definition linalg_norm :: "vec \<Rightarrow> real" where
  "linalg_norm a = sqrt (sum_list (map (\<lambda>x. \<bar>x\<bar> ^ 2) a))"

text \<open>
  The cosine divides by the product of the magnitudes without a guard. When that
  product is zero the floating-point division gives \<^verbatim>\<open>nan\<close> and does not raise; there
  is no real number for it, and the order \<^verbatim>\<open>sorted\<close> gives to \<^verbatim>\<open>nan\<close> keys is not fixed
  by the keys, so the model stops there with \<open>Not_a_number\<close>.
\<close>

definition cosine_similarity :: "vec \<Rightarrow> vec \<Rightarrow> error + real" where
  "cosine_similarity vector_a vector_b =
     (case np_dot vector_a vector_b of
        Inl e \<Rightarrow> Inl e
      | Inr dot_product \<Rightarrow>
          (let norm_a = linalg_norm vector_a; norm_b = linalg_norm vector_b
           in if norm_a * norm_b = 0 then Inl Not_a_number
              else Inr (dot_product / (norm_a * norm_b))))"

definition euclidean_distance :: "vec \<Rightarrow> vec \<Rightarrow> error + real" where
  "euclidean_distance vector_a vector_b =
     (case np_subtract vector_a vector_b of
        Inl e \<Rightarrow> Inl e
      | Inr d \<Rightarrow> Inr (linalg_norm d))"

definition manhattan_distance :: "vec \<Rightarrow> vec \<Rightarrow> error + real" where
  "manhattan_distance vector_a vector_b =
     (case np_subtract vector_a vector_b of
        Inl e \<Rightarrow> Inl e
      | Inr d \<Rightarrow> Inr (sum_list (map abs d)))"

definition dot_product_similarity :: "vec \<Rightarrow> vec \<Rightarrow> error + real" where
  "dot_product_similarity vector_a vector_b = np_dot vector_a vector_b"

definition distance_metrics :: "(string \<times> (vec \<Rightarrow> vec \<Rightarrow> error + real)) list" where
  "distance_metrics =
     [(''cosine'', cosine_similarity),
      (''euclidean'', euclidean_distance),
      (''manhattan'', manhattan_distance),
      (''dot_product'', dot_product_similarity)]"

subsection \<open>\<^verbatim>\<open>insert\<close>, \<^verbatim>\<open>retrieve_from_key\<close>, \<^verbatim>\<open>update_metadata\<close>\<close>

text \<open>
  The optional \<^verbatim>\<open>metadata\<close> argument is \<open>None\<close> when absent. The guard \<^verbatim>\<open>if metadata:\<close>
  is false for \<^verbatim>\<open>None\<close> and for the empty dictionary.

  The store of the model holds each dictionary by value. The source keeps the
  caller's dictionary object (\<^verbatim>\<open>self.metadata[key] = metadata\<close>) and \<^verbatim>\<open>update_metadata\<close>
  changes the stored object in place (\<^verbatim>\<open>self.metadata[key].update(new_metadata)\<close>), so
  that when one object has been inserted under several keys, an update through one of
  them shows under the others too. Which keys hold one object is not in a store of
  values, so \<open>update_metadata\<close> takes it as an argument: \<open>sharing\<close> lists the other keys
  of the metadata mapping that hold the very object stored for \<open>key\<close> (none, when the
  object was inserted once, or is the empty dictionary the \<^verbatim>\<open>defaultdict\<close> has just
  made). The update rebinds keys of that one object and changes no object inside it.
\<close>

definition insert_db :: "string \<Rightarrow> vec \<Rightarrow> dict option \<Rightarrow> store \<Rightarrow> store" where
  "insert_db key vector md st =
     (let st1 = st\<lparr>vectors := dict_set key vector (vectors st)\<rparr>
      in case md of
           None \<Rightarrow> st1
         | Some m \<Rightarrow> if m \<noteq> [] then st1\<lparr>metadata := dict_set key m (metadata st1)\<rparr> else st1)"

definition retrieve_from_key :: "string \<Rightarrow> store \<Rightarrow> (vec option \<times> dict) \<times> store" where
  "retrieve_from_key key st =
     (let vector = map_of (vectors st) key;
          md = dict_get (metadata st) key []
      in ((vector, md), st))"

definition update_metadata ::
  "string \<Rightarrow> dict \<Rightarrow> string list \<Rightarrow> store \<Rightarrow> (error + unit) \<times> store" where
  "update_metadata key new_metadata sharing st =
     (if map_of (vectors st) key \<noteq> None then
        (case defaultdict_getitem (metadata st) key [] of
           (old, metadata1) \<Rightarrow>
             (let updated = dict_update old new_metadata
              in (Inr (),
                  st\<lparr>metadata :=
                       map (\<lambda>(k, m). if k = key \<or> k \<in> set sharing then (k, updated)
                                     else (k, m))
                         metadata1\<rparr>)))
      else (Inl (KeyError key), st))"

subsection \<open>\<^verbatim>\<open>search\<close>\<close>

text \<open>
  \<^verbatim>\<open>sorted(xs, key=..., reverse=...)\<close> is stable; with \<^verbatim>\<open>reverse=True\<close> elements with
  equal keys still keep their original order. \<^verbatim>\<open>xs[:k]\<close> counts a negative \<open>k\<close> from
  the end of the list.
\<close>

definition py_sorted :: "('a \<Rightarrow> real) \<Rightarrow> bool \<Rightarrow> 'a list \<Rightarrow> 'a list" where
  "py_sorted key reverse xs =
     (if reverse then rev (sort_key key (rev xs)) else sort_key key xs)"

definition slice_index :: "int \<Rightarrow> nat \<Rightarrow> nat" where
  "slice_index i n = (if i < 0 then nat (max 0 (i + int n)) else min (nat i) n)"

definition py_slice :: "int \<Rightarrow> int \<Rightarrow> 'a list \<Rightarrow> 'a list" where
  "py_slice start stop xs =
     (let lo = slice_index start (length xs); hi = slice_index stop (length xs)
      in take (hi - lo) (drop lo xs))"

definition py_slice_to :: "int \<Rightarrow> 'a list \<Rightarrow> 'a list" where
  "py_slice_to stop xs = take (slice_index stop (length xs)) xs"

datatype search_result =
    With_scores "(string \<times> real \<times> dict) list"
  | Without_scores "(string \<times> dict) list"

text \<open>
  The condition of the \<^verbatim>\<open>continue\<close>:
  \<^verbatim>\<open>metadata_filter and not self._matches_filter(key, metadata_filter)\<close>. An absent or
  empty filter is false and \<^verbatim>\<open>_matches_filter\<close> is not called.
\<close>

definition excluded :: "string \<Rightarrow> dict option \<Rightarrow> store \<Rightarrow> (error + bool) \<times> store" where
  "excluded key metadata_filter st =
     (case metadata_filter of
        None \<Rightarrow> (Inr False, st)
      | Some flt \<Rightarrow>
          if flt = [] then (Inr False, st)
          else (case matches_filter key flt st of
                  (Inl e, st1) \<Rightarrow> (Inl e, st1)
                | (Inr m, st1) \<Rightarrow> (Inr (\<not> m), st1)))"

text \<open>The loop over \<^verbatim>\<open>self.vectors.items()\<close> that builds \<^verbatim>\<open>scores\<close>.\<close>

fun score_entries ::
  "(vec \<Rightarrow> vec \<Rightarrow> error + real) \<Rightarrow> vec \<Rightarrow> dict option \<Rightarrow> (string \<times> vec) list \<Rightarrow> store
     \<Rightarrow> (error + (string \<times> real \<times> dict) list) \<times> store" where
  "score_entries distance_func query_vector metadata_filter [] st = (Inr [], st)"
| "score_entries distance_func query_vector metadata_filter ((key, vector) # rest) st =
     (case excluded key metadata_filter st of
        (Inl e, st1) \<Rightarrow> (Inl e, st1)
      | (Inr True, st1) \<Rightarrow> score_entries distance_func query_vector metadata_filter rest st1
      | (Inr False, st1) \<Rightarrow>
          (case distance_func query_vector vector of
             Inl e \<Rightarrow> (Inl e, st1)
           | Inr score \<Rightarrow>
               (let md = dict_get (metadata st1) key []
                in case score_entries distance_func query_vector metadata_filter rest st1 of
                     (Inl e, st2) \<Rightarrow> (Inl e, st2)
                   | (Inr scores, st2) \<Rightarrow> (Inr ((key, score, md) # scores), st2))))"

definition search ::
  "vec \<Rightarrow> int \<Rightarrow> string \<Rightarrow> dict option \<Rightarrow> bool \<Rightarrow> store \<Rightarrow> (error + search_result) \<times> store" where
  "search query_vector k distance_measure metadata_filter return_scores st =
     (case map_of distance_metrics distance_measure of
        None \<Rightarrow>
          (Inl (Unknown_distance_measure distance_measure (map fst distance_metrics)), st)
      | Some distance_func \<Rightarrow>
          (case score_entries distance_func query_vector metadata_filter (vectors st) st of
             (Inl e, st1) \<Rightarrow> (Inl e, st1)
           | (Inr scores, st1) \<Rightarrow>
               (let reverse_sort = (distance_measure \<in> set [''cosine'', ''dot_product'']);
                    sorted_scores = py_sorted (\<lambda>x. fst (snd x)) reverse_sort scores;
                    results = py_slice_to k sorted_scores
                in (Inr (if return_scores then With_scores results
                         else Without_scores (map (\<lambda>(text, _, md). (text, md)) results)),
                    st1))))"

subsection \<open>\<^verbatim>\<open>save_to_file\<close> and \<^verbatim>\<open>load_from_file\<close>\<close>

text \<open>
  The file is a JSON object with the keys \<^verbatim>\<open>vectors\<close> (key to list of numbers) and
  \<^verbatim>\<open>metadata\<close> (key to JSON object). \<open>json_of\<close> is what \<^verbatim>\<open>json.dump\<close> writes for a value:
  a tuple is written as an array, like a list. \<open>py_of\<close> is what \<^verbatim>\<open>json.load\<close> builds:
  every array becomes a list, and an object becomes a dictionary in which a repeated
  key keeps its last value. For \<^verbatim>\<open>nan\<close> the token \<^verbatim>\<open>NaN\<close> is written, which is not JSON;
  \<^verbatim>\<open>json.load\<close> builds a new \<^verbatim>\<open>nan\<close> object for it, unequal to the one saved, and
  \<open>py_of\<close> has no equation for it: which object it is lies outside the model. The fallback \<^verbatim>\<open>default=str\<close> of \<^verbatim>\<open>json.dump\<close> is for objects
  of other classes, which are not among the values modelled. \<^verbatim>\<open>tolist\<close> and \<^verbatim>\<open>np.array\<close>
  convert between an array and the list of its entries. The file system is not
  modelled: loading reads the content that saving wrote.
\<close>

datatype json =
    JNull
  | JBool bool
  | JInt int
  | JFloat real
  | JNaN
  | JStr string
  | JArr "json list"
  | JObj "(string \<times> json) list"

fun json_of :: "pyval \<Rightarrow> json" where
  "json_of PNone = JNull"
| "json_of (PBool b) = JBool b"
| "json_of (PInt i) = JInt i"
| "json_of (PFloat r) = JFloat r"
| "json_of (PNaN n) = JNaN"
| "json_of (PStr s) = JStr s"
| "json_of (PList xs) = JArr (map json_of xs)"
| "json_of (PTuple xs) = JArr (map json_of xs)"
| "json_of (PDict d) = JObj (map (\<lambda>(k, v). (k, json_of v)) d)"

fun py_of :: "json \<Rightarrow> pyval" where
  "py_of JNull = PNone"
| "py_of (JBool b) = PBool b"
| "py_of (JInt i) = PInt i"
| "py_of (JFloat r) = PFloat r"
| "py_of (JStr s) = PStr s"
| "py_of (JArr xs) = PList (map py_of xs)"
| "py_of (JObj d) = PDict (dict_update [] (map (\<lambda>(k, v). (k, py_of v)) d))"

record db_file =
  file_vectors :: "(string \<times> real list) list"
  file_metadata :: "(string \<times> (string \<times> json) list) list"

definition tolist :: "vec \<Rightarrow> real list" where
  "tolist vector = vector"

definition np_array :: "real list \<Rightarrow> vec" where
  "np_array vector_list = vector_list"

definition save_to_file :: "store \<Rightarrow> db_file" where
  "save_to_file st =
     \<lparr>file_vectors = map (\<lambda>(key, vector). (key, tolist vector)) (vectors st),
      file_metadata = map (\<lambda>(key, md). (key, map (\<lambda>(k, v). (k, json_of v)) md)) (metadata st)\<rparr>"

definition load_from_file :: "db_file \<Rightarrow> store \<Rightarrow> store" where
  "load_from_file data st =
     (let st1 = st\<lparr>vectors := [], metadata := []\<rparr>;
          st2 = st1\<lparr>vectors := dict_update (vectors st1)
                  (map (\<lambda>(key, vector_list). (key, np_array vector_list)) (file_vectors data))\<rparr>
      in st2\<lparr>metadata := dict_update (metadata st2)
           (map (\<lambda>(key, md). (key, dict_update [] (map (\<lambda>(k, v). (k, py_of v)) md)))
              (file_metadata data))\<rparr>)"

section \<open>Text splitters\<close>

record pdf_text_splitter =
  chunk_size :: int
  chunk_overlap :: int
  preserve_page_info :: bool

definition PDFTextSplitter_init :: "int \<Rightarrow> int \<Rightarrow> bool \<Rightarrow> error + pdf_text_splitter" where
  "PDFTextSplitter_init csize coverlap cpages =
     (if csize > coverlap
      then Inr \<lparr>chunk_size = csize, chunk_overlap = coverlap, preserve_page_info = cpages\<rparr>
      else Inl (AssertionError ''Chunk size must be greater than chunk overlap''))"

record youtube_text_splitter =
  yt_chunk_size :: int
  yt_chunk_overlap :: int
  preserve_timestamps :: bool

definition YouTubeTextSplitter_init :: "int \<Rightarrow> int \<Rightarrow> bool \<Rightarrow> error + youtube_text_splitter" where
  "YouTubeTextSplitter_init csize coverlap ctimestamps =
     Inr \<lparr>yt_chunk_size = csize, yt_chunk_overlap = coverlap,
         preserve_timestamps = ctimestamps\<rparr>"

subsection \<open>\<^verbatim>\<open>range\<close> and string helpers\<close>

function range_up :: "int \<Rightarrow> int \<Rightarrow> int \<Rightarrow> int list" where
  "range_up i stop step =
     (if 0 < step \<and> i < stop then i # range_up (i + step) stop step else [])"
  by pat_completeness auto
termination
  by (relation "measure (\<lambda>(i, stop, step). nat (stop - i))") auto

declare range_up.simps [simp del]

function range_down :: "int \<Rightarrow> int \<Rightarrow> int \<Rightarrow> int list" where
  "range_down i stop step =
     (if step < 0 \<and> stop < i then i # range_down (i + step) stop step else [])"
  by pat_completeness auto
termination
  by (relation "measure (\<lambda>(i, stop, step). nat (i - stop))") auto

declare range_down.simps [simp del]

definition py_range :: "int \<Rightarrow> int \<Rightarrow> int \<Rightarrow> error + int list" where
  "py_range start stop step =
     (if step = 0 then Inl Range_step_zero
      else if 0 < step then Inr (range_up start stop step)
      else Inr (range_down start stop step))"

text \<open>\<^verbatim>\<open>s.split(sep)\<close> for a separator that is not empty, and \<^verbatim>\<open>s.startswith(p)\<close>.\<close>

function split_from :: "string \<Rightarrow> string \<Rightarrow> string \<Rightarrow> string list" where
  "split_from sep cur [] = [cur]"
| "split_from sep cur (c # s) =
     (if sep \<noteq> [] \<and> take (length sep) (c # s) = sep
      then cur # split_from sep [] (drop (length sep) (c # s))
      else split_from sep (cur @ [c]) s)"
  by pat_completeness auto
termination
  by (relation "measure (\<lambda>(sep, cur, s). length s)") auto

definition str_split :: "string \<Rightarrow> string \<Rightarrow> string list" where
  "str_split sep s = split_from sep [] s"

definition startswith :: "string \<Rightarrow> string \<Rightarrow> bool" where
  "startswith p s = (take (length p) s = p)"

subsection \<open>\<^verbatim>\<open>PDFTextSplitter.split\<close>\<close>

text \<open>
  The builtin \<^verbatim>\<open>int\<close> that reads a page number is the parameter \<open>to_int\<close>, with \<open>None\<close>
  for \<^verbatim>\<open>ValueError\<close>; an \<^verbatim>\<open>IndexError\<close> or \<^verbatim>\<open>ValueError\<close> skips the marker.
\<close>

fun page_numbers :: "(string \<Rightarrow> int option) \<Rightarrow> string list \<Rightarrow> int list" where
  "page_numbers to_int [] = []"
| "page_numbers to_int (marker # markers) =
     (case str_split ''Page '' marker of
        before # after # others \<Rightarrow>
          (case str_split '' ---'' after of
             number # others' \<Rightarrow>
               (case to_int number of
                  Some page_num \<Rightarrow> page_num # page_numbers to_int markers
                | None \<Rightarrow> page_numbers to_int markers)
           | [] \<Rightarrow> page_numbers to_int markers)
      | _ \<Rightarrow> page_numbers to_int markers)"

record chunk =
  chunk_text :: string
  chunk_metadata :: dict

definition page_info :: "(string \<Rightarrow> int option) \<Rightarrow> string \<Rightarrow> dict \<Rightarrow> dict" where
  "page_info to_int text md =
     (let page_markers = filter (startswith ''--- Page '') (str_split [CHR 0x0A] text)
      in if page_markers \<noteq> [] then
           (let pages = page_numbers to_int page_markers
            in if pages \<noteq> [] then
                 dict_set ''primary_page'' (PInt (hd pages))
                   (dict_set ''pages_spanned'' (PList (map PInt pages)) md)
               else md)
         else md)"

definition make_chunk ::
  "(string \<Rightarrow> int option) \<Rightarrow> pdf_text_splitter \<Rightarrow> string \<Rightarrow> dict \<Rightarrow> nat \<times> int \<Rightarrow> chunk" where
  "make_chunk to_int sp text base_metadata numbered =
     (let i = fst numbered; chunk_start = snd numbered;
          ctext = py_slice chunk_start (chunk_start + chunk_size sp) text;
          md = dict_update base_metadata
                 [(''chunk_id'', PInt (int i)),
                  (''chunk_start'', PInt chunk_start),
                  (''chunk_end'', PInt (min (chunk_start + chunk_size sp) (int (length text)))),
                  (''chunk_size'', PInt (int (length ctext)))];
          md1 = (if preserve_page_info sp \<and> is_substring ''--- Page '' ctext
                 then page_info to_int ctext md else md)
      in \<lparr>chunk_text = ctext, chunk_metadata = md1\<rparr>)"

definition PDFTextSplitter_split ::
  "(string \<Rightarrow> int option) \<Rightarrow> pdf_text_splitter \<Rightarrow> string \<Rightarrow> dict option \<Rightarrow> error + chunk list" where
  "PDFTextSplitter_split to_int sp text md =
     (let base_metadata = (case md of None \<Rightarrow> [] | Some m \<Rightarrow> m)
      in case py_range 0 (int (length text)) (chunk_size sp - chunk_overlap sp) of
           Inl e \<Rightarrow> Inl e
         | Inr starts \<Rightarrow>
             Inr (map (make_chunk to_int sp text base_metadata) (enumerate 0 starts)))"

subsection \<open>\<^verbatim>\<open>YouTubeTextSplitter.split_by_text\<close>\<close>

definition YouTubeTextSplitter_split_by_text ::
  "youtube_text_splitter \<Rightarrow> string \<Rightarrow> dict \<Rightarrow> error + chunk list" where
  "YouTubeTextSplitter_split_by_text sp text md =
     (case py_range 0 (int (length text)) (yt_chunk_size sp - yt_chunk_overlap sp) of
        Inl e \<Rightarrow> Inl e
      | Inr starts \<Rightarrow>
          Inr (map (\<lambda>(chunk_id, i).
                 (let ctext = py_slice i (i + yt_chunk_size sp) text
                  in \<lparr>chunk_text = ctext,
                      chunk_metadata = dict_update md
                        [(''chunk_id'', PInt (int chunk_id)),
                         (''chunk_start'', PInt i),
                         (''chunk_end'', PInt (min (i + yt_chunk_size sp) (int (length text)))),
                         (''chunk_size'', PInt (int (length ctext))),
                         (''timestamp_start'', PNone),
                         (''timestamp_end'', PNone),
                         (''segments_included'', PNone)]\<rparr>))
               (enumerate 0 starts)))"

section \<open>Notions used to state the properties of \<^verbatim>\<open>search\<close>\<close>

text \<open>
  An entry is not excluded by the filter when there is no filter, or every item of
  the filter admits the entry's metadata (none has to, when the filter is empty).
  The evaluation of the filter on a document goes through when no comparison raises
  before the result is known.
\<close>

definition filter_admits :: "dict option \<Rightarrow> dict \<Rightarrow> bool" where
  "filter_admits metadata_filter doc_metadata =
     (case metadata_filter of
        None \<Rightarrow> True
      | Some flt \<Rightarrow> list_all (key_admitted doc_metadata) flt)"

definition filter_evaluates :: "dict option \<Rightarrow> dict \<Rightarrow> bool" where
  "filter_evaluates metadata_filter doc_metadata =
     (case metadata_filter of
        None \<Rightarrow> True
      | Some flt \<Rightarrow> check_items doc_metadata flt \<noteq> Inl TypeError)"

fun result_length :: "search_result \<Rightarrow> nat" where
  "result_length (With_scores results) = length results"
| "result_length (Without_scores results) = length results"

definition recognized_metrics :: "string set" where
  "recognized_metrics = {''cosine'', ''euclidean'', ''manhattan'', ''dot_product''}"

definition scored_as ::
  "(vec \<Rightarrow> vec \<Rightarrow> error + real) \<Rightarrow> vec \<Rightarrow> store \<Rightarrow> string \<times> vec \<Rightarrow> string \<times> real \<times> dict \<Rightarrow> bool" where
  "scored_as distance_func query_vector st entry result =
     (fst result = fst entry
      \<and> distance_func query_vector (snd entry) = Inr (fst (snd result))
      \<and> snd (snd result) = dict_get (metadata st) (fst entry) [])"

definition admitted_entries :: "dict option \<Rightarrow> store \<Rightarrow> (string \<times> vec) list" where
  "admitted_entries metadata_filter st =
     filter (\<lambda>entry. filter_admits metadata_filter (dict_get (metadata st) (fst entry) []))
       (vectors st)"

section \<open>Notions used to state the round trip through a file\<close>

text \<open>
  A value is JSON-native when it is \<^verbatim>\<open>None\<close>, a boolean, an integer, a float other
  than \<^verbatim>\<open>nan\<close>, a string, a list of such values or a dictionary of such values; a tuple
  is not. The keys of a Python
  dictionary are distinct, which an association list has to be told.
\<close>

fun json_native :: "pyval \<Rightarrow> bool"
  and all_native :: "pyval list \<Rightarrow> bool"
  and items_native :: "dict \<Rightarrow> bool" where
  "json_native (PTuple xs) = False"
| "json_native (PNaN n) = False"
| "json_native (PList xs) = all_native xs"
| "json_native (PDict d) = (distinct (map fst d) \<and> items_native d)"
| "json_native v = True"
| "all_native [] = True"
| "all_native (x # xs) = (json_native x \<and> all_native xs)"
| "items_native [] = True"
| "items_native ((k, v) # d) = (json_native v \<and> items_native d)"

section \<open>Properties of the filter\<close>

lemma cmp_num_neg: "cmp_num (neg_op op) m n = (\<not> cmp_num op m n)"
  by (cases op) auto

lemma cmp_str_neg: "cmp_str (neg_op op) s t = (\<not> cmp_str op s t)"
  by (cases op) auto

text \<open>
  On values free of \<^verbatim>\<open>nan\<close> an ordering operator and its opposite exclude each other
  and raise together. With \<^verbatim>\<open>nan\<close> both are false.
\<close>

lemma is_number_nan_free: "nan_free a \<Longrightarrow> num_of a = None \<Longrightarrow> \<not> is_number a"
  by (cases a) auto

lemma py_cmp_neg:
  "nan_free a \<Longrightarrow> nan_free b \<Longrightarrow>
     py_cmp (neg_op op) a b = map_option Not (py_cmp op a b)"
  "all_nan_free xs \<Longrightarrow> all_nan_free ys \<Longrightarrow>
     seq_cmp (neg_op op) xs ys = map_option Not (seq_cmp op xs ys)"
  by (induction op a b and op xs ys rule: py_cmp_seq_cmp.induct)
     (simp_all add: cmp_num_neg cmp_str_neg is_number_nan_free split: option.splits)

lemma py_cmp_nan: "py_cmp op (PNaN n) (PInt i) = Some False"
  by simp

lemma map_of_nan_free: "items_nan_free d \<Longrightarrow> map_of d k = Some v \<Longrightarrow> nan_free v"
  by (induction d) (auto split: if_splits)

lemma or_else_True_iff:
  "or_else rejected rest = Inr True \<longleftrightarrow> rejected = Some False \<and> rest = Inr True"
  by (auto simp: or_else_def split: option.splits bool.splits)

lemma op_test_False_iff:
  "op_test filter_value name comparison = Some False \<longleftrightarrow>
     op_admits filter_value name comparison"
  by (auto simp: op_test_def op_admits_def split: option.splits)

lemma check_value_iff:
  "check_value doc_value filter_value = Inr True \<longleftrightarrow> value_admitted doc_value filter_value"
  by (cases filter_value) (simp_all add: or_else_True_iff op_test_False_iff)

lemma check_items_iff:
  "check_items doc_metadata metadata_filter = Inr True \<longleftrightarrow>
     list_all (key_admitted doc_metadata) metadata_filter"
proof (induction metadata_filter)
  case Nil
  show ?case by simp
next
  case (Cons item rest)
  obtain filter_key filter_value where item: "item = (filter_key, filter_value)"
    by (cases item)
  show ?case
  proof (cases "map_of doc_metadata filter_key")
    case None
    then show ?thesis by (simp add: item key_admitted_def)
  next
    case (Some doc_value)
    show ?thesis
    proof (cases "check_value doc_value filter_value")
      case (Inl e)
      with Some check_value_iff [of doc_value filter_value] show ?thesis
        by (simp add: item key_admitted_def)
    next
      case (Inr b)
      with Some check_value_iff [of doc_value filter_value] Cons.IH show ?thesis
        by (cases b) (simp_all add: item key_admitted_def)
    qed
  qed
qed

lemma op_admits_holds:
  assumes "nan_free doc_value" and "items_nan_free ops"
  shows "op_admits ops name (py_cmp (neg_op op) doc_value)
    = op_holds ops name (py_cmp op doc_value)"
proof (cases "map_of ops name")
  case None
  then show ?thesis by (simp add: op_admits_def op_holds_def)
next
  case (Some bound)
  with assms(2) have "nan_free bound" by (rule map_of_nan_free)
  from py_cmp_neg(1) [OF assms(1) this, of op] Some show ?thesis
    by (cases "py_cmp op doc_value bound") (auto simp: op_admits_def op_holds_def)
qed

lemma op_admits_holds_in:
  "op_admits ops name (\<lambda>b. map_option Not (test b)) = op_holds ops name test"
  "op_admits ops name test = op_holds ops name (\<lambda>b. map_option Not (test b))"
  by (auto simp: op_admits_def op_holds_def split: option.splits)

lemma value_admitted_passes:
  assumes "nan_free doc_value" and "nan_free filter_value"
  shows "value_admitted doc_value filter_value = value_passes doc_value filter_value"
proof (cases filter_value)
  case (PDict ops)
  with assms(2) have ops: "items_nan_free ops" by simp
  show ?thesis
    using op_admits_holds [OF assms(1) ops, of "''$gte''" Ge]
      op_admits_holds [OF assms(1) ops, of "''$lte''" Le]
      op_admits_holds [OF assms(1) ops, of "''$gt''" Gt]
      op_admits_holds [OF assms(1) ops, of "''$lt''" Lt]
      op_admits_holds_in(1) [of ops "''$in''" "py_in doc_value"]
      op_admits_holds_in(2) [of ops "''$nin''" "py_in doc_value"]
    by (simp add: PDict)
qed simp_all

lemma key_admitted_passes:
  assumes "items_nan_free doc_metadata" and "nan_free (snd item)"
  shows "key_admitted doc_metadata item = key_passes doc_metadata item"
proof (cases "map_of doc_metadata (fst item)")
  case None
  then show ?thesis by (simp add: key_admitted_def key_passes_def)
next
  case (Some doc_value)
  with assms(1) have "nan_free doc_value" by (rule map_of_nan_free)
  from value_admitted_passes [OF this assms(2)] Some show ?thesis
    by (simp add: key_admitted_def key_passes_def)
qed

lemma items_nan_free_iff: "items_nan_free d \<longleftrightarrow> (\<forall>item \<in> set d. nan_free (snd item))"
  by (induction d) auto

lemma list_all_admitted_passes:
  assumes "items_nan_free doc_metadata" and "items_nan_free metadata_filter"
  shows "list_all (key_admitted doc_metadata) metadata_filter
    = list_all (key_passes doc_metadata) metadata_filter"
  using assms(2) key_admitted_passes [OF assms(1)]
  by (simp add: list_all_iff items_nan_free_iff)

text \<open>
  The range filter of the specification, \<^verbatim>\<open>{"length": {"$gte": 30}}\<close>, excludes a
  document whose \<^verbatim>\<open>length\<close> is an integer below 30.
\<close>

lemma range_filter_excludes_below:
  "map_of (dict_get (metadata st) key []) ''length'' = Some (PInt n) \<Longrightarrow> n < 30 \<Longrightarrow>
     fst (matches_filter key [(''length'', PDict [(''$gte'', PInt 30)])] st) = Inr False"
  by (simp add: matches_filter_def or_else_def op_test_def)

text \<open>
  Claim C2, as the code has it. \<^verbatim>\<open>_matches_filter\<close> returns \<^verbatim>\<open>True\<close> exactly when every
  item of the filter admits the document's metadata (the empty mapping when the key
  has none): the filter key is in the metadata and, against the document's value, an
  operator mapping has none of its \<^verbatim>\<open>$gte\<close>, \<^verbatim>\<open>$lte\<close>, \<^verbatim>\<open>$gt\<close>, \<^verbatim>\<open>$lt\<close>, \<^verbatim>\<open>$in\<close>, \<^verbatim>\<open>$nin\<close>
  entries reject it (the value is not below the \<^verbatim>\<open>$gte\<close> bound, not above the \<^verbatim>\<open>$lte\<close>
  bound, not at or below the \<^verbatim>\<open>$gt\<close> bound, not at or above the \<^verbatim>\<open>$lt\<close> bound, in the
  \<^verbatim>\<open>$in\<close> container, not in the \<^verbatim>\<open>$nin\<close> container), a list contains the document's
  value, and any other filter value equals it. A comparison that raises admits
  nothing, and then the function does not return \<^verbatim>\<open>True\<close>. When neither the metadata
  nor the filter holds a \<^verbatim>\<open>nan\<close>, this is the claim of the specification: every item
  passes its range test, membership test or equality.
\<close>

theorem matches_filter_iff:
  "(fst (matches_filter key metadata_filter st) = Inr True \<longleftrightarrow>
      list_all (key_admitted (dict_get (metadata st) key [])) metadata_filter)
   \<and> (items_nan_free (dict_get (metadata st) key []) \<and> items_nan_free metadata_filter \<longrightarrow>
       (fst (matches_filter key metadata_filter st) = Inr True \<longleftrightarrow>
          list_all (key_passes (dict_get (metadata st) key [])) metadata_filter))"
  using list_all_admitted_passes [of "dict_get (metadata st) key []" metadata_filter]
  by (simp add: matches_filter_def check_items_iff)

theorem matches_filter_iff_witness:
  "fst (matches_filter ''doc'' [(''length'', PDict [(''$gte'', PInt 30)])]
     \<lparr>vectors = [(''doc'', [1])], metadata = [(''doc'', [(''length'', PInt 31)])]\<rparr>)
   = Inr True
   \<and> list_all (key_admitted [(''length'', PNaN 0)]) [(''length'', PDict [(''$gte'', PInt 30)])]"
  using matches_filter_iff [of "''doc''" "[(''length'', PDict [(''$gte'', PInt 30)])]"
    "\<lparr>vectors = [(''doc'', [1])], metadata = [(''doc'', [(''length'', PInt 31)])]\<rparr>"]
    matches_filter_iff [of "''doc''" "[(''length'', PDict [(''$gte'', PInt 30)])]"
    "\<lparr>vectors = [(''doc'', [1])], metadata = [(''doc'', [(''length'', PNaN 0)])]\<rparr>"]
  by (simp add: dict_get_def key_passes_def op_holds_def key_admitted_def op_admits_def)

text \<open>
  The claim as the specification states it, with positive range tests, fails on a
  document value that is \<^verbatim>\<open>nan\<close>: \<^verbatim>\<open>nan < 30\<close> is false, so the \<^verbatim>\<open>$gte\<close> test of the source
  does not reject it and the function returns \<^verbatim>\<open>True\<close>, while \<^verbatim>\<open>nan >= 30\<close> is false too.
\<close>

theorem matches_filter_nan_counterexample:
  "fst (matches_filter ''doc'' [(''length'', PDict [(''$gte'', PInt 30)])]
     \<lparr>vectors = [(''doc'', [1])], metadata = [(''doc'', [(''length'', PNaN 0)])]\<rparr>)
   = Inr True
   \<and> \<not> list_all (key_passes [(''length'', PNaN 0)]) [(''length'', PDict [(''$gte'', PInt 30)])]
   \<and> py_cmp Ge (PNaN 0) (PInt 30) = Some False"
  by (simp add: matches_filter_def dict_get_def or_else_def op_test_def key_passes_def
      op_holds_def)

section \<open>Properties of the dictionary operations\<close>

lemma map_of_dict_set: "map_of (dict_set k v d) = (map_of d)(k \<mapsto> v)"
  by (induction d) auto

lemma map_of_dict_update_other:
  "k \<notin> fst ` set other \<Longrightarrow> map_of (dict_update d other) k = map_of d k"
  by (induction other arbitrary: d) (auto simp: map_of_dict_set)

lemma map_of_dict_update_new:
  "distinct (map fst other) \<Longrightarrow> (k, v) \<in> set other \<Longrightarrow>
     map_of (dict_update d other) k = Some v"
proof (induction other arbitrary: d)
  case Nil
  then show ?case by simp
next
  case (Cons item other)
  obtain k' v' where item: "item = (k', v')" by (cases item)
  show ?case
  proof (cases "(k, v) = (k', v')")
    case True
    with Cons.prems item have "k \<notin> fst ` set other" by auto
    then show ?thesis
      using True item by (simp add: map_of_dict_update_other map_of_dict_set)
  next
    case False
    with Cons.prems item have "(k, v) \<in> set other" "distinct (map fst other)" by auto
    then show ?thesis using Cons.IH item by simp
  qed
qed

section \<open>Insertion, retrieval and metadata update\<close>

text \<open>
  Claim C3, as the code has it. \<^verbatim>\<open>insert\<close> always overwrites the vector of the key. It
  overwrites the metadata of the key only when the metadata argument is a dictionary
  that is not empty; with absent or empty metadata the metadata mapping is left as it
  was. An immediately following \<^verbatim>\<open>retrieve_from_key\<close> returns the inserted vector,
  and the inserted metadata when it is not empty; otherwise it returns the metadata
  the key had before the insertion, the empty mapping when it had none.
\<close>

theorem insert_then_retrieve:
  "map_of (vectors (insert_db key vector md st)) = (map_of (vectors st))(key \<mapsto> vector)
   \<and> map_of (metadata (insert_db key vector md st)) =
       (case md of
          None \<Rightarrow> map_of (metadata st)
        | Some m \<Rightarrow> if m \<noteq> [] then (map_of (metadata st))(key \<mapsto> m) else map_of (metadata st))
   \<and> fst (retrieve_from_key key (insert_db key vector md st)) =
       (Some vector,
        case md of
          None \<Rightarrow> dict_get (metadata st) key []
        | Some m \<Rightarrow> if m \<noteq> [] then m else dict_get (metadata st) key [])"
  by (simp add: insert_db_def retrieve_from_key_def dict_get_def map_of_dict_set
      split: option.splits)

theorem insert_then_retrieve_witness:
  "fst (retrieve_from_key ''a''
     (insert_db ''a'' [1, 2] (Some [(''category'', PStr ''food'')])
        \<lparr>vectors = [(''a'', [0, 0])], metadata = [(''a'', [(''old'', PInt 1)])]\<rparr>))
   = (Some [1, 2], [(''category'', PStr ''food'')])"
  using insert_then_retrieve [of "''a''" "[1, 2]" "Some [(''category'', PStr ''food'')]"
    "\<lparr>vectors = [(''a'', [0, 0])], metadata = [(''a'', [(''old'', PInt 1)])]\<rparr>"]
  by simp

text \<open>
  The claim as the specification states it fails when a key that has metadata is
  inserted again without metadata: the old metadata comes back, not the empty mapping.
\<close>

theorem insert_without_metadata_counterexample:
  "fst (retrieve_from_key ''a''
     (insert_db ''a'' [2] None
        (insert_db ''a'' [1] (Some [(''x'', PInt 1)]) \<lparr>vectors = [], metadata = []\<rparr>)))
   = (Some [2], [(''x'', PInt 1)])
   \<and> fst (retrieve_from_key ''a''
     (insert_db ''a'' [2] None
        (insert_db ''a'' [1] (Some [(''x'', PInt 1)]) \<lparr>vectors = [], metadata = []\<rparr>)))
   \<noteq> (Some [2], [])"
  by (simp add: insert_db_def retrieve_from_key_def dict_get_def)

text \<open>
  Claim C9. For a key that is in neither mapping, \<^verbatim>\<open>retrieve_from_key\<close> returns no
  vector and the empty metadata mapping, raises nothing and leaves the store as it is.
\<close>

theorem retrieve_absent_key:
  "map_of (vectors st) key = None \<Longrightarrow> map_of (metadata st) key = None \<Longrightarrow>
     retrieve_from_key key st = ((None, []), st)"
  by (simp add: retrieve_from_key_def dict_get_def)

theorem retrieve_absent_key_witness:
  "retrieve_from_key ''missing''
     \<lparr>vectors = [(''a'', [1])], metadata = [(''a'', [(''x'', PInt 1)])]\<rparr>
   = ((None, []), \<lparr>vectors = [(''a'', [1])], metadata = [(''a'', [(''x'', PInt 1)])]\<rparr>)"
  using retrieve_absent_key [of
    "\<lparr>vectors = [(''a'', [1])], metadata = [(''a'', [(''x'', PInt 1)])]\<rparr>" "''missing''"]
  by simp

lemma dict_get_defaultdict_getitem:
  "fst (defaultdict_getitem d k dflt) = dict_get d k dflt"
  by (simp add: defaultdict_getitem_def dict_get_def split: option.splits)

lemma map_of_defaultdict_getitem_same:
  "map_of (snd (defaultdict_getitem d k dflt)) k = Some (dict_get d k dflt)"
  by (simp add: defaultdict_getitem_def dict_get_def map_of_dict_set split: option.splits)

lemma map_of_defaultdict_getitem_other:
  "k' \<noteq> k \<Longrightarrow> map_of (snd (defaultdict_getitem d k dflt)) k' = map_of d k'"
  by (simp add: defaultdict_getitem_def map_of_dict_set split: option.splits)

lemma map_of_rebind:
  "map_of (map (\<lambda>(k, m). if P k then (k, u) else (k, m)) d) k' =
     (if P k' then map_option (\<lambda>m. u) (map_of d k') else map_of d k')"
  by (induction d) auto

text \<open>
  Claim C5. \<^verbatim>\<open>update_metadata\<close> raises exactly when the key has no stored vector; the
  failure is the \<^verbatim>\<open>KeyError\<close> naming the key and the store is unchanged. When the key
  has a vector the call returns, the vectors are unchanged, and the metadata of the
  key is its old metadata (empty when it had none) updated with the new items: a
  metadata key that the new mapping does not mention keeps its old value, and one
  that it mentions takes the new value. The metadata of another key is unchanged
  unless that key holds the same dictionary object, and then it shows the same
  update.
\<close>

theorem update_metadata_merges:
  "((\<exists>e. fst (update_metadata key new_metadata sharing st) = Inl e) \<longleftrightarrow>
       map_of (vectors st) key = None)
   \<and> (map_of (vectors st) key = None \<longrightarrow>
       update_metadata key new_metadata sharing st = (Inl (KeyError key), st))
   \<and> (map_of (vectors st) key \<noteq> None \<longrightarrow>
       (\<exists>st'. update_metadata key new_metadata sharing st = (Inr (), st')
          \<and> vectors st' = vectors st
          \<and> dict_get (metadata st') key [] =
              dict_update (dict_get (metadata st) key []) new_metadata
          \<and> (\<forall>k. k \<notin> fst ` set new_metadata \<longrightarrow>
                map_of (dict_get (metadata st') key []) k =
                map_of (dict_get (metadata st) key []) k)
          \<and> (\<forall>k v. distinct (map fst new_metadata) \<and> (k, v) \<in> set new_metadata \<longrightarrow>
                map_of (dict_get (metadata st') key []) k = Some v)
          \<and> (\<forall>k'. k' \<noteq> key \<and> k' \<notin> set sharing \<longrightarrow>
                map_of (metadata st') k' = map_of (metadata st) k')
          \<and> (\<forall>k'. k' \<in> set sharing \<and> map_of (metadata st) k' \<noteq> None \<longrightarrow>
                map_of (metadata st') k' = map_of (metadata st') key)))"
proof (cases "map_of (vectors st) key")
  case None
  then show ?thesis by (simp add: update_metadata_def)
next
  case (Some vector)
  obtain old metadata1 where g: "defaultdict_getitem (metadata st) key [] = (old, metadata1)"
    by (cases "defaultdict_getitem (metadata st) key []")
  have old: "old = dict_get (metadata st) key []"
    using dict_get_defaultdict_getitem [of "metadata st" key "[]"] g by simp
  have here: "map_of metadata1 key = Some old"
    using map_of_defaultdict_getitem_same [of "metadata st" key "[]"] g old by simp
  have other: "k' \<noteq> key \<Longrightarrow> map_of metadata1 k' = map_of (metadata st) k'" for k'
    using map_of_defaultdict_getitem_other [of k' key "metadata st" "[]"] g by simp
  define updated where "updated = dict_update old new_metadata"
  define st' where
    "st' = st\<lparr>metadata :=
       map (\<lambda>(k, m). if k = key \<or> k \<in> set sharing then (k, updated) else (k, m)) metadata1\<rparr>"
  have run: "update_metadata key new_metadata sharing st = (Inr (), st')"
    unfolding st'_def updated_def by (simp add: update_metadata_def Some g Let_def)
  have look: "map_of (metadata st') k' =
      (if k' = key \<or> k' \<in> set sharing then map_option (\<lambda>m. updated) (map_of metadata1 k')
       else map_of metadata1 k')" for k'
    using map_of_rebind [of "\<lambda>k. k = key \<or> k \<in> set sharing" updated metadata1 k']
    by (simp add: st'_def)
  have at_key: "map_of (metadata st') key = Some updated"
    by (simp add: look here)
  have merged: "dict_get (metadata st') key [] = dict_update old new_metadata"
    by (simp add: dict_get_def at_key updated_def)
  have "vectors st' = vectors st" by (simp add: st'_def)
  moreover have "\<forall>k. k \<notin> fst ` set new_metadata \<longrightarrow>
      map_of (dict_get (metadata st') key []) k = map_of (dict_get (metadata st) key []) k"
    by (simp add: merged old map_of_dict_update_other)
  moreover have "\<forall>k v. distinct (map fst new_metadata) \<and> (k, v) \<in> set new_metadata \<longrightarrow>
      map_of (dict_get (metadata st') key []) k = Some v"
    by (simp add: merged map_of_dict_update_new)
  moreover have "\<forall>k'. k' \<noteq> key \<and> k' \<notin> set sharing \<longrightarrow>
      map_of (metadata st') k' = map_of (metadata st) k'"
    by (simp add: look other)
  moreover have "\<forall>k'. k' \<in> set sharing \<and> map_of (metadata st) k' \<noteq> None \<longrightarrow>
      map_of (metadata st') k' = map_of (metadata st') key"
  proof (intro allI impI)
    fix k'
    assume a: "k' \<in> set sharing \<and> map_of (metadata st) k' \<noteq> None"
    show "map_of (metadata st') k' = map_of (metadata st') key"
    proof (cases "k' = key")
      case True
      then show ?thesis by simp
    next
      case False
      with a other [of k'] have "map_of metadata1 k' \<noteq> None" by simp
      with a have "map_of (metadata st') k' = Some updated" by (auto simp: look)
      with at_key show ?thesis by simp
    qed
  qed
  ultimately show ?thesis
    using run merged old Some by simp
qed

theorem update_metadata_merges_witness:
  "update_metadata ''a'' [(''seen'', PBool True)] []
     \<lparr>vectors = [(''a'', [1])], metadata = [(''a'', [(''category'', PStr ''food'')])]\<rparr>
   = (Inr (), \<lparr>vectors = [(''a'', [1])],
        metadata = [(''a'', [(''category'', PStr ''food''), (''seen'', PBool True)])]\<rparr>)
   \<and> update_metadata ''b'' [(''seen'', PBool True)] []
     \<lparr>vectors = [(''a'', [1])], metadata = [(''a'', [(''category'', PStr ''food'')])]\<rparr>
   = (Inl (KeyError ''b''),
      \<lparr>vectors = [(''a'', [1])], metadata = [(''a'', [(''category'', PStr ''food'')])]\<rparr>)"
  using update_metadata_merges [of "''b''" "[(''seen'', PBool True)]" "[]"
    "\<lparr>vectors = [(''a'', [1])], metadata = [(''a'', [(''category'', PStr ''food'')])]\<rparr>"]
  by (simp add: update_metadata_def defaultdict_getitem_def)

text \<open>
  One dictionary inserted under the keys \<^verbatim>\<open>a\<close> and \<^verbatim>\<open>b\<close> and updated through \<^verbatim>\<open>a\<close>: both
  keys show the new item, and a third key with its own dictionary does not.
\<close>

lemma update_metadata_shared_object:
  "update_metadata ''a'' [(''x'', PInt 1)] [''b'']
     \<lparr>vectors = [(''a'', [1]), (''b'', [2]), (''c'', [3])],
      metadata = [(''a'', [(''t'', PInt 0)]), (''b'', [(''t'', PInt 0)]),
                  (''c'', [(''t'', PInt 0)])]\<rparr>
   = (Inr (),
      \<lparr>vectors = [(''a'', [1]), (''b'', [2]), (''c'', [3])],
       metadata = [(''a'', [(''t'', PInt 0), (''x'', PInt 1)]),
                   (''b'', [(''t'', PInt 0), (''x'', PInt 1)]),
                   (''c'', [(''t'', PInt 0)])]\<rparr>)"
  by (simp add: update_metadata_def defaultdict_getitem_def)

section \<open>Properties of \<^verbatim>\<open>search\<close>\<close>

lemma check_value_error: "check_value doc_value filter_value = Inl e \<Longrightarrow> e = TypeError"
  by (cases filter_value)
     (auto simp: or_else_def split: option.splits bool.splits if_splits)

lemma check_items_error: "check_items doc_metadata flt = Inl e \<Longrightarrow> e = TypeError"
  by (induction flt)
     (auto split: option.splits sum.splits bool.splits dest: check_value_error)

lemma excluded_eq:
  "excluded key metadata_filter st =
     ((case metadata_filter of
         None \<Rightarrow> Inr False
       | Some flt \<Rightarrow>
           if flt = [] then Inr False
           else (case check_items (dict_get (metadata st) key []) flt of
                   Inl e \<Rightarrow> Inl e
                 | Inr m \<Rightarrow> Inr (\<not> m))),
      st)"
  by (simp add: excluded_def matches_filter_def split: option.splits sum.splits)

lemma excluded_error: "fst (excluded key metadata_filter st) = Inl e \<Longrightarrow> e = TypeError"
  by (auto simp: excluded_eq split: option.splits sum.splits if_splits
      dest: check_items_error)

lemma excluded_False_iff:
  "fst (excluded key metadata_filter st) = Inr False \<longleftrightarrow>
     filter_admits metadata_filter (dict_get (metadata st) key [])"
proof (cases metadata_filter)
  case None
  then show ?thesis by (simp add: excluded_eq filter_admits_def)
next
  case (Some flt)
  show ?thesis
  proof (cases "flt = []")
    case True
    with Some show ?thesis by (simp add: excluded_eq filter_admits_def)
  next
    case False
    have "(case check_items (dict_get (metadata st) key []) flt of
             Inl e \<Rightarrow> Inl e | Inr m \<Rightarrow> Inr (\<not> m)) = Inr False \<longleftrightarrow>
          check_items (dict_get (metadata st) key []) flt = Inr True"
      by (auto split: sum.splits)
    with Some False show ?thesis
      by (simp add: excluded_eq filter_admits_def check_items_iff)
  qed
qed

lemma excluded_evaluates:
  "filter_evaluates metadata_filter (dict_get (metadata st) key []) \<Longrightarrow>
     \<exists>b. fst (excluded key metadata_filter st) = Inr b"
  by (cases "check_items (dict_get (metadata st) key []) (the metadata_filter)")
     (auto simp: excluded_eq filter_evaluates_def split: option.splits dest: check_items_error)

lemma snd_excluded: "snd (excluded key metadata_filter st) = st"
  by (simp add: excluded_eq)

lemma snd_score_entries:
  "snd (score_entries distance_func query_vector metadata_filter entries st) = st"
proof (induction entries)
  case Nil
  show ?case by simp
next
  case (Cons entry entries)
  obtain key vector where entry: "entry = (key, vector)" by (cases entry)
  obtain r where ex: "excluded key metadata_filter st = (r, st)"
    using snd_excluded [of key metadata_filter st]
    by (cases "excluded key metadata_filter st") simp
  obtain r' where rest:
    "score_entries distance_func query_vector metadata_filter entries st = (r', st)"
    using Cons.IH
    by (cases "score_entries distance_func query_vector metadata_filter entries st") simp
  show ?case
    by (simp add: entry ex rest split: sum.splits bool.splits)
qed

text \<open>
  Claim C10. \<^verbatim>\<open>search\<close> leaves both mappings of the store exactly as they were,
  whatever the query, \<open>k\<close>, metric name, filter and score flag, and whether it returns
  or raises: the loop and \<^verbatim>\<open>_matches_filter\<close> only read, and they read the metadata
  with \<^verbatim>\<open>get\<close>, which does not insert a missing key.
\<close>

theorem search_read_only:
  "snd (search query_vector k distance_measure metadata_filter return_scores st) = st"
proof (cases "map_of distance_metrics distance_measure")
  case None
  then show ?thesis by (simp add: search_def)
next
  case (Some distance_func)
  obtain r where
    "score_entries distance_func query_vector metadata_filter (vectors st) st = (r, st)"
    using snd_score_entries [of distance_func query_vector metadata_filter "vectors st" st]
    by (cases "score_entries distance_func query_vector metadata_filter (vectors st) st") simp
  with Some show ?thesis
    by (simp add: search_def Let_def split: sum.splits)
qed

theorem search_read_only_witness:
  "snd (search [1, 0] 1 ''dot_product'' (Some [(''category'', PStr ''food'')]) True
     \<lparr>vectors = [(''a'', [1, 1]), (''b'', [2, 0])],
      metadata = [(''a'', [(''category'', PStr ''food'')])]\<rparr>)
   = \<lparr>vectors = [(''a'', [1, 1]), (''b'', [2, 0])],
      metadata = [(''a'', [(''category'', PStr ''food'')])]\<rparr>"
  using search_read_only [of "[1, 0]" 1 "''dot_product''"
    "Some [(''category'', PStr ''food'')]" True
    "\<lparr>vectors = [(''a'', [1, 1]), (''b'', [2, 0])],
      metadata = [(''a'', [(''category'', PStr ''food'')])]\<rparr>"]
  by simp

lemma score_entries_error:
  "fst (score_entries distance_func query_vector metadata_filter entries st) = Inl e \<Longrightarrow>
     e = TypeError \<or> (\<exists>vector. distance_func query_vector vector = Inl e)"
proof (induction entries)
  case Nil
  then show ?case by simp
next
  case (Cons entry entries)
  obtain key vector where entry: "entry = (key, vector)" by (cases entry)
  obtain r where ex: "excluded key metadata_filter st = (r, st)"
    using snd_excluded [of key metadata_filter st]
    by (cases "excluded key metadata_filter st") simp
  obtain r' where rest:
    "score_entries distance_func query_vector metadata_filter entries st = (r', st)"
    using snd_score_entries [of distance_func query_vector metadata_filter entries st]
    by (cases "score_entries distance_func query_vector metadata_filter entries st") simp
  show ?case
  proof (cases r)
    case (Inl e')
    with Cons.prems entry ex have "e = e'" by simp
    moreover have "e' = TypeError"
      using excluded_error [of key metadata_filter st e'] ex Inl by simp
    ultimately show ?thesis by simp
  next
    case (Inr b)
    show ?thesis
    proof (cases b)
      case True
      with Cons entry ex Inr rest show ?thesis by simp
    next
      case False
      show ?thesis
      proof (cases "distance_func query_vector vector")
        case (Inl e')
        with Cons.prems entry ex Inr False have "e = e'" by simp
        with Inl show ?thesis by blast
      next
        case score: (Inr score)
        with Cons.prems entry ex Inr False rest have "r' = Inl e"
          by (cases r') (simp_all add: Let_def)
        with Cons.IH rest show ?thesis by simp
      qed
    qed
  qed
qed

lemma metric_error:
  "map_of distance_metrics distance_measure = Some distance_func \<Longrightarrow>
   distance_func a b = Inl e \<Longrightarrow>
     e = Shapes_not_aligned \<or> e = Cannot_broadcast \<or> e = Not_a_number"
  by (auto simp: distance_metrics_def cosine_similarity_def euclidean_distance_def
        manhattan_distance_def dot_product_similarity_def np_dot_def np_subtract_def Let_def
      split: if_splits sum.splits)

lemma map_of_distance_metrics_None:
  "map_of distance_metrics distance_measure = None \<longleftrightarrow>
     distance_measure \<notin> recognized_metrics"
  by (simp add: distance_metrics_def recognized_metrics_def)

text \<open>
  Claim C4. When the metric name is not one of \<^verbatim>\<open>cosine\<close>, \<^verbatim>\<open>euclidean\<close>, \<^verbatim>\<open>manhattan\<close>,
  \<^verbatim>\<open>dot_product\<close>, \<^verbatim>\<open>search\<close> fails with the error that names the offending metric
  and lists these four names. When the name is one of them, \<^verbatim>\<open>search\<close> never fails
  with an error of that kind, whatever name and list it would carry.
\<close>

theorem search_unknown_metric_iff:
  "(distance_measure \<notin> recognized_metrics \<longrightarrow>
      fst (search query_vector k distance_measure metadata_filter return_scores st) =
        Inl (Unknown_distance_measure distance_measure
               [''cosine'', ''euclidean'', ''manhattan'', ''dot_product'']))
   \<and> (distance_measure \<in> recognized_metrics \<longrightarrow>
      (\<forall>name names.
         fst (search query_vector k distance_measure metadata_filter return_scores st) \<noteq>
           Inl (Unknown_distance_measure name names)))"
proof (cases "map_of distance_metrics distance_measure")
  case None
  then have "distance_measure \<notin> recognized_metrics"
    by (simp add: map_of_distance_metrics_None)
  with None show ?thesis
    by (simp add: search_def distance_metrics_def)
next
  case (Some distance_func)
  then have known: "distance_measure \<in> recognized_metrics"
    using map_of_distance_metrics_None [of distance_measure] by auto
  obtain r where run:
    "score_entries distance_func query_vector metadata_filter (vectors st) st = (r, st)"
    using snd_score_entries [of distance_func query_vector metadata_filter "vectors st" st]
    by (cases "score_entries distance_func query_vector metadata_filter (vectors st) st") simp
  have "fst (search query_vector k distance_measure metadata_filter return_scores st) \<noteq>
      Inl (Unknown_distance_measure name names)" for name names
  proof (cases r)
    case (Inl e)
    then have "e = TypeError \<or> (\<exists>vector. distance_func query_vector vector = Inl e)"
      using score_entries_error [of distance_func query_vector metadata_filter "vectors st" st e]
        run by simp
    then have "e \<noteq> Unknown_distance_measure name names"
      using metric_error [OF Some] by auto
    with Some run Inl show ?thesis by (simp add: search_def)
  next
    case (Inr scores)
    with Some run show ?thesis by (simp add: search_def Let_def)
  qed
  with known show ?thesis by simp
qed

theorem search_unknown_metric_iff_witness:
  "fst (search [1, 0] 5 ''manhatan'' None False \<lparr>vectors = [(''a'', [1, 1])], metadata = []\<rparr>)
     = Inl (Unknown_distance_measure ''manhatan''
              [''cosine'', ''euclidean'', ''manhattan'', ''dot_product''])
   \<and> fst (search [1, 0] 5 ''manhattan'' None False
        \<lparr>vectors = [(''a'', [1, 1])], metadata = []\<rparr>)
     \<noteq> Inl (Unknown_distance_measure ''manhattan''
              [''cosine'', ''euclidean'', ''manhattan'', ''dot_product''])"
  using search_unknown_metric_iff [of "''manhatan''" "[1, 0]" 5 None False
      "\<lparr>vectors = [(''a'', [1, 1])], metadata = []\<rparr>"]
    search_unknown_metric_iff [of "''manhattan''" "[1, 0]" 5 None False
      "\<lparr>vectors = [(''a'', [1, 1])], metadata = []\<rparr>"]
  by (simp add: recognized_metrics_def)


section \<open>Properties of the splitters\<close>

lemma length_range_up:
  "0 < step \<Longrightarrow> length (range_up i stop step) = nat ((stop - i + step - 1) div step)"
proof (induction i stop step rule: range_up.induct)
  case (1 i stop step)
  show ?case
  proof (cases "i < stop")
    case True
    have "stop - i + step - 1 = (stop - (i + step) + step - 1) + step" by simp
    then have "(stop - i + step - 1) div step = (stop - (i + step) + step - 1) div step + 1"
      using \<open>0 < step\<close> by (simp only: div_add_self2)
    moreover have "0 \<le> (stop - (i + step) + step - 1) div step"
      using True \<open>0 < step\<close> by (simp add: pos_imp_zdiv_nonneg_iff)
    ultimately show ?thesis
      using 1 True by (subst range_up.simps) (simp add: nat_add_distrib)
  next
    case False
    then have "(stop - i + step - 1) div step \<le> 0"
      using \<open>0 < step\<close> pos_imp_zdiv_pos_iff [of step "stop - i + step - 1"] by simp
    with False show ?thesis by (subst range_up.simps) simp
  qed
qed

lemma nth_range_up:
  "0 < step \<Longrightarrow> j < length (range_up i stop step) \<Longrightarrow>
     range_up i stop step ! j = i + int j * step"
proof (induction i stop step arbitrary: j rule: range_up.induct)
  case (1 i stop step)
  show ?case
  proof (cases "i < stop")
    case True
    show ?thesis
    proof (cases j)
      case 0
      with True 1 show ?thesis by (subst range_up.simps) simp
    next
      case (Suc j')
      from "1.prems"(2) True "1.prems"(1) Suc have "j' < length (range_up (i + step) stop step)"
        by (subst (asm) range_up.simps) simp
      from "1.IH"[OF _ "1.prems"(1) this] True "1.prems"(1)
      have "range_up (i + step) stop step ! j' = i + step + int j' * step" by simp
      with True 1 Suc show ?thesis by (subst range_up.simps) (simp add: algebra_simps)
    qed
  next
    case False
    with "1.prems" show ?thesis by (subst (asm) range_up.simps) simp
  qed
qed

lemma py_slice_window:
  "0 \<le> s \<Longrightarrow> 0 \<le> c \<Longrightarrow> py_slice s (s + c) xs = take (nat c) (drop (nat s) xs)"
  by (auto simp: py_slice_def slice_index_def Let_def min_def nat_add_distrib)


lemma chunk_text_make_chunk:
  "chunk_text (make_chunk to_int sp text base numbered) =
     py_slice (snd numbered) (snd numbered + chunk_size sp) text"
  by (simp add: make_chunk_def Let_def)

lemma split_chunks:
  assumes "0 < chunk_size sp - chunk_overlap sp"
  shows "\<exists>chunks. PDFTextSplitter_split to_int sp text md = Inr chunks
    \<and> length chunks =
        nat ((int (length text) + (chunk_size sp - chunk_overlap sp) - 1)
             div (chunk_size sp - chunk_overlap sp))
    \<and> (\<forall>i<length chunks. chunk_text (chunks ! i) =
          py_slice (int i * (chunk_size sp - chunk_overlap sp))
            (int i * (chunk_size sp - chunk_overlap sp) + chunk_size sp) text)"
proof -
  let ?step = "chunk_size sp - chunk_overlap sp"
  let ?starts = "range_up 0 (int (length text)) ?step"
  let ?base = "case md of None \<Rightarrow> [] | Some m \<Rightarrow> m"
  let ?chunks = "map (make_chunk to_int sp text ?base) (enumerate 0 ?starts)"
  have run: "PDFTextSplitter_split to_int sp text md = Inr ?chunks"
    using assms by (simp add: PDFTextSplitter_split_def py_range_def)
  have len: "length ?chunks = nat ((int (length text) + ?step - 1) div ?step)"
    using length_range_up [OF assms, of 0 "int (length text)"] by simp
  have nth: "chunk_text (?chunks ! i) = py_slice (int i * ?step) (int i * ?step + chunk_size sp) text"
    if "i < length ?chunks" for i
  proof -
    from that have i: "i < length ?starts" by simp
    then have "?chunks ! i = make_chunk to_int sp text ?base (i, ?starts ! i)"
      by (simp add: nth_enumerate_eq)
    moreover have "?starts ! i = int i * ?step"
      using nth_range_up [OF assms i] by simp
    ultimately show ?thesis by (simp add: chunk_text_make_chunk)
  qed
  from run len nth show ?thesis by blast
qed

text \<open>
  Claim C7. A splitter with \<^verbatim>\<open>chunk_size=1000\<close> and \<^verbatim>\<open>chunk_overlap=200\<close> can be built,
  and splitting a text of length \<open>L > 0\<close> with it returns \<open>\<lceil>L / 800\<rceil>\<close> chunks. Chunk \<open>i\<close> is the part of the text that
  starts at offset \<open>800 i\<close> and has at most 1000 characters. What chunk \<open>i\<close> has beyond
  its first 800 characters is the beginning of chunk \<open>i + 1\<close>, and these are exactly 200
  characters unless chunk \<open>i + 1\<close> is the final one.
\<close>

theorem pdf_split_1000_200:
  assumes "text \<noteq> []"
  shows "\<exists>sp chunks.
      PDFTextSplitter_init 1000 200 pages = Inr sp
    \<and> PDFTextSplitter_split to_int sp text md = Inr chunks
    \<and> length chunks = (length text + 799) div 800
    \<and> (\<forall>i<length chunks. chunk_text (chunks ! i) = take 1000 (drop (800 * i) text))
    \<and> (\<forall>i<length chunks. length (chunk_text (chunks ! i)) \<le> 1000)
    \<and> (\<forall>i. i + 1 < length chunks \<longrightarrow>
          drop 800 (chunk_text (chunks ! i)) = take 200 (chunk_text (chunks ! (i + 1))))
    \<and> (\<forall>i. i + 2 < length chunks \<longrightarrow> length (drop 800 (chunk_text (chunks ! i))) = 200)"
proof -
  let ?sp = "\<lparr>chunk_size = 1000, chunk_overlap = 200, preserve_page_info = pages\<rparr>"
  obtain chunks where run: "PDFTextSplitter_split to_int ?sp text md = Inr chunks"
    and len0: "length chunks = nat ((int (length text) + (1000 - 200) - 1) div (1000 - 200))"
    and nth0: "\<And>i. i < length chunks \<Longrightarrow>
        chunk_text (chunks ! i) = py_slice (int i * (1000 - 200)) (int i * (1000 - 200) + 1000) text"
    using split_chunks [of "?sp" to_int "text" md] by auto
  have len: "length chunks = (length text + 799) div 800"
    using len0 by (simp add: nat_div_distrib nat_add_distrib)
  have nth: "chunk_text (chunks ! i) = take 1000 (drop (800 * i) text)"
    if "i < length chunks" for i
    using nth0 [OF that] py_slice_window [of "int i * 800" 1000 "text"]
    by (simp add: nat_mult_distrib mult.commute)
  have short: "length (chunk_text (chunks ! i)) \<le> 1000" if "i < length chunks" for i
    using nth [OF that] by simp
  have overlap: "drop 800 (chunk_text (chunks ! i)) = take 200 (chunk_text (chunks ! (i + 1)))"
    if "i + 1 < length chunks" for i
  proof -
    from that have "i < length chunks" by simp
    from nth [OF this] nth [OF that] show ?thesis
      by (simp add: drop_take add.commute)
  qed
  have exact: "length (drop 800 (chunk_text (chunks ! i))) = 200"
    if "i + 2 < length chunks" for i
  proof -
    from that have i: "i < length chunks" by simp
    from that len have "800 * (i + 3) \<le> length text + 799" by simp
    with nth [OF i] show ?thesis by simp
  qed
  have init: "PDFTextSplitter_init 1000 200 pages = Inr ?sp"
    by (simp add: PDFTextSplitter_init_def)
  from init run len nth short overlap exact show ?thesis by blast
qed

theorem pdf_split_1000_200_witness:
  "\<exists>sp chunks.
      PDFTextSplitter_init 1000 200 True = Inr sp
    \<and> PDFTextSplitter_split (\<lambda>s. None) sp (replicate 2500 (CHR ''a'')) None = Inr chunks
    \<and> length chunks = 4
    \<and> chunk_text (chunks ! 1) = replicate 1000 (CHR ''a'')
    \<and> chunk_text (chunks ! 3) = replicate 100 (CHR ''a'')
    \<and> length (drop 800 (chunk_text (chunks ! 1))) = 200"
proof -
  have "replicate 2500 (CHR ''a'') \<noteq> []" by simp
  from pdf_split_1000_200 [OF this, where to_int = "\<lambda>s. None" and pages = True and md = None]
  obtain sp chunks where
    "PDFTextSplitter_init 1000 200 True = Inr sp"
    "PDFTextSplitter_split (\<lambda>s. None) sp (replicate 2500 (CHR ''a'')) None = Inr chunks"
    "length chunks = 4"
    "\<forall>i<length chunks. chunk_text (chunks ! i) = take 1000 (drop (800 * i) (replicate 2500 (CHR ''a'')))"
    "\<forall>i. i + 2 < length chunks \<longrightarrow> length (drop 800 (chunk_text (chunks ! i))) = 200"
    by auto
  then show ?thesis by (intro exI [of _ sp] exI [of _ chunks]) simp
qed

lemma PDFTextSplitter_init_iff:
  "(\<exists>e. PDFTextSplitter_init csize coverlap cpages = Inl e) \<longleftrightarrow> csize \<le> coverlap"
  by (auto simp: PDFTextSplitter_init_def)

text \<open>
  Claim C8 holds for \<^verbatim>\<open>PDFTextSplitter\<close> (the lemma above) and fails for
  \<^verbatim>\<open>YouTubeTextSplitter\<close>, whose constructor checks nothing: it accepts a chunk size of 100
  with an overlap of 200, where the constructor of \<^verbatim>\<open>PDFTextSplitter\<close> fails, and
  \<^verbatim>\<open>split_by_text\<close> of the splitter so built returns no chunk for a text that is not
  empty.
\<close>

theorem YouTubeTextSplitter_init_unchecked:
  "YouTubeTextSplitter_init 100 200 True =
     Inr \<lparr>yt_chunk_size = 100, yt_chunk_overlap = 200, preserve_timestamps = True\<rparr>
   \<and> PDFTextSplitter_init 100 200 True =
     Inl (AssertionError ''Chunk size must be greater than chunk overlap'')
   \<and> YouTubeTextSplitter_split_by_text
       \<lparr>yt_chunk_size = 100, yt_chunk_overlap = 200, preserve_timestamps = True\<rparr>
       ''some transcript'' [] = Inr []"
  by (simp add: YouTubeTextSplitter_init_def PDFTextSplitter_init_def
      YouTubeTextSplitter_split_by_text_def py_range_def range_down.simps)


section \<open>Saving and loading\<close>

lemma dict_set_fresh: "k \<notin> fst ` set d \<Longrightarrow> dict_set k v d = d @ [(k, v)]"
  by (induction d) auto

lemma dict_update_fresh:
  "distinct (map fst (d @ other)) \<Longrightarrow> dict_update d other = d @ other"
proof (induction other arbitrary: d)
  case Nil
  show ?case by simp
next
  case (Cons item other)
  obtain k v where item: "item = (k, v)" by (cases item)
  from Cons.prems item have fresh: "k \<notin> fst ` set d" by auto
  from Cons.prems item have "distinct (map fst ((d @ [(k, v)]) @ other))" by auto
  from Cons.IH [OF this] fresh show ?case by (simp add: item dict_set_fresh)
qed

lemma dict_update_empty: "distinct (map fst other) \<Longrightarrow> dict_update [] other = other"
  using dict_update_fresh [of "[]" other] by simp

lemma py_of_json_of:
  "json_native v \<Longrightarrow> py_of (json_of v) = v"
  "all_native xs \<Longrightarrow> map py_of (map json_of xs) = xs"
  "items_native d \<Longrightarrow> map (\<lambda>(k, v). (k, py_of v)) (map (\<lambda>(k, v). (k, json_of v)) d) = d"
  by (induction v and xs and d rule: json_native_all_native_items_native.induct)
     (simp_all add: dict_update_empty)

lemma save_load_metadata_entry:
  "json_native (PDict md) \<Longrightarrow>
     dict_update [] (map (\<lambda>(k, v). (k, py_of v)) (map (\<lambda>(k, v). (k, json_of v)) md)) = md"
  using py_of_json_of(3) [of md] by (simp add: dict_update_empty)

lemma map_entries_id:
  "\<forall>entry \<in> set xs. f (snd entry) = snd entry \<Longrightarrow> map (\<lambda>(k, v). (k, f v)) xs = xs"
  by (induction xs) auto

text \<open>
  Claim C6, as the code has it. Saving a store and loading the file gives back the
  key-to-vector mapping of the original. It gives back the key-to-metadata mapping
  when every metadata value is JSON-native: \<^verbatim>\<open>None\<close>, a boolean, an integer, a float,
  a string, or a list or string-keyed mapping of such values. (That the keys of each dictionary
  are distinct is true of every Python dictionary.)
\<close>

theorem save_load_roundtrip:
  "(distinct (map fst (vectors st)) \<longrightarrow>
      vectors (load_from_file (save_to_file st) st') = vectors st)
   \<and> (distinct (map fst (metadata st))
       \<and> (\<forall>entry \<in> set (metadata st). json_native (PDict (snd entry))) \<longrightarrow>
      metadata (load_from_file (save_to_file st) st') = metadata st)"
proof (intro conjI impI)
  assume "distinct (map fst (vectors st))"
  moreover have "map (\<lambda>(key, vector_list). (key, np_array vector_list))
      (map (\<lambda>(key, vector). (key, tolist vector)) (vectors st)) = vectors st"
    by (simp add: np_array_def tolist_def case_prod_beta)
  ultimately show "vectors (load_from_file (save_to_file st) st') = vectors st"
    by (simp add: load_from_file_def save_to_file_def dict_update_empty)
next
  assume a: "distinct (map fst (metadata st))
    \<and> (\<forall>entry \<in> set (metadata st). json_native (PDict (snd entry)))"
  let ?reload = "\<lambda>md. dict_update [] (map (\<lambda>(k, v). (k, py_of v)) (map (\<lambda>(k, v). (k, json_of v)) md))"
  have "map (\<lambda>(key, md). (key, dict_update [] (map (\<lambda>(k, v). (k, py_of v)) md)))
      (map (\<lambda>(key, md). (key, map (\<lambda>(k, v). (k, json_of v)) md)) (metadata st))
      = map (\<lambda>(key, md). (key, ?reload md)) (metadata st)"
    by (simp add: case_prod_beta)
  also have "\<dots> = metadata st"
    using a save_load_metadata_entry by (intro map_entries_id) auto
  finally show "metadata (load_from_file (save_to_file st) st') = metadata st"
    using a by (simp add: load_from_file_def save_to_file_def dict_update_empty)
qed

theorem save_load_roundtrip_witness:
  "vectors (load_from_file
      (save_to_file \<lparr>vectors = [(''a'', [1, 2]), (''b'', [3, 4])],
         metadata = [(''a'', [(''tags'', PList [PStr ''x'', PInt 1]), (''n'', PDict [(''k'', PNone)])])]\<rparr>)
      \<lparr>vectors = [(''old'', [0])], metadata = []\<rparr>)
   = [(''a'', [1, 2]), (''b'', [3, 4])]
   \<and> metadata (load_from_file
      (save_to_file \<lparr>vectors = [(''a'', [1, 2]), (''b'', [3, 4])],
         metadata = [(''a'', [(''tags'', PList [PStr ''x'', PInt 1]), (''n'', PDict [(''k'', PNone)])])]\<rparr>)
      \<lparr>vectors = [(''old'', [0])], metadata = []\<rparr>)
   = [(''a'', [(''tags'', PList [PStr ''x'', PInt 1]), (''n'', PDict [(''k'', PNone)])])]"
  using save_load_roundtrip [of
      "\<lparr>vectors = [(''a'', [1, 2]), (''b'', [3, 4])],
         metadata = [(''a'', [(''tags'', PList [PStr ''x'', PInt 1]), (''n'', PDict [(''k'', PNone)])])]\<rparr>"
      "\<lparr>vectors = [(''old'', [0])], metadata = []\<rparr>"]
  by simp

text \<open>
  The claim as the specification states it, for every store, fails on metadata that
  holds a tuple: JSON has no tuples, \<^verbatim>\<open>json.dump\<close> writes an array, \<^verbatim>\<open>json.load\<close> reads a
  list, and a list is not equal to a tuple.
\<close>

theorem save_load_tuple_counterexample:
  "metadata (load_from_file
      (save_to_file \<lparr>vectors = [(''a'', [1])],
         metadata = [(''a'', [(''span'', PTuple [PInt 0, PInt 10])])]\<rparr>)
      \<lparr>vectors = [], metadata = []\<rparr>)
   = [(''a'', [(''span'', PList [PInt 0, PInt 10])])]
   \<and> \<not> py_eq (PList [PInt 0, PInt 10]) (PTuple [PInt 0, PInt 10])
   \<and> [(''a'', [(''span'', PList [PInt 0, PInt 10])])]
       \<noteq> [(''a'', [(''span'', PTuple [PInt 0, PInt 10])])]"
  by (simp add: load_from_file_def save_to_file_def)


section \<open>The result of \<^verbatim>\<open>search\<close>\<close>

lemma score_entries_ok:
  assumes "\<forall>entry \<in> set entries.
      filter_evaluates metadata_filter (dict_get (metadata st) (fst entry) [])
      \<and> (filter_admits metadata_filter (dict_get (metadata st) (fst entry) []) \<longrightarrow>
           (\<exists>score. distance_func query_vector (snd entry) = Inr score))"
  shows "\<exists>cands.
      fst (score_entries distance_func query_vector metadata_filter entries st) = Inr cands
      \<and> list_all2 (scored_as distance_func query_vector st)
           (filter (\<lambda>entry. filter_admits metadata_filter (dict_get (metadata st) (fst entry) []))
              entries) cands"
  using assms
proof (induction entries)
  case Nil
  show ?case by simp
next
  case (Cons entry entries)
  obtain key vector where entry: "entry = (key, vector)" by (cases entry)
  let ?doc = "dict_get (metadata st) key []"
  from Cons.prems entry have ev: "filter_evaluates metadata_filter ?doc"
    and sc: "filter_admits metadata_filter ?doc \<Longrightarrow>
      \<exists>score. distance_func query_vector vector = Inr score"
    by auto
  from Cons obtain cands where
    rest: "fst (score_entries distance_func query_vector metadata_filter entries st) = Inr cands"
    and rel: "list_all2 (scored_as distance_func query_vector st)
       (filter (\<lambda>entry. filter_admits metadata_filter (dict_get (metadata st) (fst entry) []))
          entries) cands"
    by auto
  have rest': "score_entries distance_func query_vector metadata_filter entries st
      = (Inr cands, st)"
    using rest snd_score_entries [of distance_func query_vector metadata_filter entries st]
    by (cases "score_entries distance_func query_vector metadata_filter entries st") simp
  obtain b where b: "fst (excluded key metadata_filter st) = Inr b"
    using excluded_evaluates [OF ev] by blast
  then have ex: "excluded key metadata_filter st = (Inr b, st)"
    using snd_excluded [of key metadata_filter st]
    by (cases "excluded key metadata_filter st") simp
  show ?case
  proof (cases b)
    case True
    with b have "\<not> filter_admits metadata_filter ?doc"
      using excluded_False_iff [of key metadata_filter st] by simp
    with True ex rest' rel show ?thesis by (simp add: entry)
  next
    case False
    with b have adm: "filter_admits metadata_filter ?doc"
      using excluded_False_iff [of key metadata_filter st] by simp
    from sc [OF adm] obtain score where score: "distance_func query_vector vector = Inr score"
      by blast
    have "scored_as distance_func query_vector st (key, vector) (key, score, ?doc)"
      by (simp add: scored_as_def score)
    with False ex rest' rel adm score show ?thesis by (simp add: entry)
  qed
qed

lemma mset_py_sorted: "mset (py_sorted key reverse xs) = mset xs"
  by (simp add: py_sorted_def)

lemma sorted_py_sorted:
  "sorted (map key (py_sorted key False xs))"
  "sorted (rev (map key (py_sorted key True xs)))"
  by (simp_all add: py_sorted_def rev_map)

lemma py_sorted_stable:
  "filter (\<lambda>x. key x = s) (py_sorted key reverse xs) = filter (\<lambda>x. key x = s) xs"
proof (cases reverse)
  case True
  have "filter (\<lambda>x. key x = s) (rev (sort_key key (rev xs)))
      = rev (filter (\<lambda>x. key x = s) (sort_key key (rev xs)))"
    by (simp add: rev_filter)
  also have "\<dots> = rev (filter (\<lambda>x. key x = s) (rev xs))"
    by (simp only: sort_key_stable)
  also have "\<dots> = filter (\<lambda>x. key x = s) xs"
    by (simp add: rev_filter)
  finally show ?thesis using True by (simp add: py_sorted_def)
next
  case False
  then show ?thesis by (simp add: py_sorted_def sort_key_stable)
qed

lemma py_slice_to_nonneg: "0 \<le> k \<Longrightarrow> py_slice_to k xs = take (nat k) xs"
  by (simp add: py_slice_to_def slice_index_def min_def)

text \<open>
  Claim C1, as the code has it. Let the metric be a recognized one, \<open>k \<ge> 0\<close>, and let
  the filter and the metric evaluate on the stored entries without raising (no
  comparison of unrelated types, no arrays of incompatible lengths, no zero magnitude
  under the cosine). Then \<^verbatim>\<open>search\<close> returns, and its result is built as follows. The
  candidates are the stored entries that the filter does not exclude, in the order of
  the store, each with its score against the query and its metadata (the empty mapping
  when it has none). They are ranked by score, descending for \<^verbatim>\<open>cosine\<close> and
  \<^verbatim>\<open>dot_product\<close> and ascending for \<^verbatim>\<open>euclidean\<close> and \<^verbatim>\<open>manhattan\<close>, candidates of equal
  score keeping their order. The result is the first \<open>k\<close> ranked triples, or the pairs
  left when the scores are dropped. So it has \<open>min k n\<close> elements for \<open>n\<close> candidates,
  and a \<open>k\<close> at or beyond the size of the store returns all of them.
\<close>

theorem search_top_k:
  assumes "0 \<le> k"
    and "map_of distance_metrics distance_measure = Some distance_func"
    and "\<forall>entry \<in> set (vectors st).
      filter_evaluates metadata_filter (dict_get (metadata st) (fst entry) [])
      \<and> (filter_admits metadata_filter (dict_get (metadata st) (fst entry) []) \<longrightarrow>
           (\<exists>score. distance_func query_vector (snd entry) = Inr score))"
  shows "\<exists>cands ranked results.
      list_all2 (scored_as distance_func query_vector st)
        (admitted_entries metadata_filter st) cands
    \<and> mset ranked = mset cands
    \<and> (if distance_measure \<in> {''cosine'', ''dot_product''}
        then sorted (rev (map (\<lambda>x. fst (snd x)) ranked))
        else sorted (map (\<lambda>x. fst (snd x)) ranked))
    \<and> (\<forall>s. filter (\<lambda>x. fst (snd x) = s) ranked = filter (\<lambda>x. fst (snd x) = s) cands)
    \<and> results = take (nat k) ranked
    \<and> fst (search query_vector k distance_measure metadata_filter return_scores st) =
        Inr (if return_scores then With_scores results
             else Without_scores (map (\<lambda>(text, score, md). (text, md)) results))
    \<and> length results = min (nat k) (length (admitted_entries metadata_filter st))
    \<and> (int (length (vectors st)) \<le> k \<longrightarrow> results = ranked)"
proof -
  obtain cands where
    run: "fst (score_entries distance_func query_vector metadata_filter (vectors st) st)
      = Inr cands"
    and rel: "list_all2 (scored_as distance_func query_vector st)
      (admitted_entries metadata_filter st) cands"
    using score_entries_ok [where entries = "vectors st" and st = st
        and metadata_filter = metadata_filter and distance_func = distance_func
        and query_vector = query_vector] assms(3)
    by (auto simp: admitted_entries_def)
  have run': "score_entries distance_func query_vector metadata_filter (vectors st) st
      = (Inr cands, st)"
    using run snd_score_entries [of distance_func query_vector metadata_filter "vectors st" st]
    by (cases "score_entries distance_func query_vector metadata_filter (vectors st) st") simp
  define reverse_sort where
    "reverse_sort = (distance_measure \<in> set [''cosine'', ''dot_product''])"
  define ranked where "ranked = py_sorted (\<lambda>x. fst (snd x)) reverse_sort cands"
  define results where "results = take (nat k) ranked"
  have len: "length cands = length (admitted_entries metadata_filter st)"
    using rel by (simp add: list_all2_lengthD)
  have "length (admitted_entries metadata_filter st) \<le> length (vectors st)"
    by (simp add: admitted_entries_def)
  with len have bound: "length ranked \<le> length (vectors st)"
    using mset_py_sorted [of "\<lambda>x. fst (snd x)" reverse_sort cands]
    by (metis ranked_def size_mset)
  have lenr: "length ranked = length cands"
    using mset_py_sorted [of "\<lambda>x. fst (snd x)" reverse_sort cands]
    by (metis ranked_def size_mset)
  have perm: "mset ranked = mset cands"
    by (simp add: ranked_def mset_py_sorted)
  have ordered: "if distance_measure \<in> {''cosine'', ''dot_product''}
      then sorted (rev (map (\<lambda>x. fst (snd x)) ranked))
      else sorted (map (\<lambda>x. fst (snd x)) ranked)"
    using sorted_py_sorted [of "\<lambda>x. fst (snd x)" cands]
    by (simp add: ranked_def reverse_sort_def)
  have stable: "\<forall>s. filter (\<lambda>x. fst (snd x) = s) ranked = filter (\<lambda>x. fst (snd x) = s) cands"
    by (simp add: ranked_def py_sorted_stable)
  have out: "fst (search query_vector k distance_measure metadata_filter return_scores st) =
      Inr (if return_scores then With_scores results
           else Without_scores (map (\<lambda>(text, score, md). (text, md)) results))"
    using assms(1,2) run'
    by (simp add: search_def Let_def results_def ranked_def reverse_sort_def py_slice_to_nonneg)
  have count: "length results = min (nat k) (length (admitted_entries metadata_filter st))"
    by (simp add: results_def lenr len min.commute)
  have all: "int (length (vectors st)) \<le> k \<longrightarrow> results = ranked"
    using bound by (simp add: results_def)
  from rel perm ordered stable out count all show ?thesis
    by (intro exI [of _ cands] exI [of _ ranked] exI [of _ results]) (simp add: results_def)
qed

theorem search_top_k_witness:
  "(\<exists>results.
      fst (search [1, 0] 2 ''dot_product'' (Some [(''length'', PDict [(''$gte'', PInt 10)])]) True
        \<lparr>vectors = [(''a'', [1, 1]), (''b'', [2, 0]), (''c'', [3, 0]), (''d'', [5, 5])],
         metadata = [(''a'', [(''length'', PInt 20)]), (''b'', [(''length'', PInt 31)]),
                     (''c'', [(''length'', PInt 12)]), (''d'', [(''length'', PInt 3)])]\<rparr>)
      = Inr (With_scores results) \<and> length results = 2)
   \<and> fst (search [1, 0] 2 ''dot_product'' (Some [(''length'', PDict [(''$gte'', PInt 10)])]) True
        \<lparr>vectors = [(''a'', [1, 1]), (''b'', [2, 0]), (''c'', [3, 0]), (''d'', [5, 5])],
         metadata = [(''a'', [(''length'', PInt 20)]), (''b'', [(''length'', PInt 31)]),
                     (''c'', [(''length'', PInt 12)]), (''d'', [(''length'', PInt 3)])]\<rparr>)
      = Inr (With_scores [(''c'', 3, [(''length'', PInt 12)]), (''b'', 2, [(''length'', PInt 31)])])"
proof -
  let ?st = "\<lparr>vectors = [(''a'', [1, 1]), (''b'', [2, 0]), (''c'', [3, 0]), (''d'', [5, 5])],
      metadata = [(''a'', [(''length'', PInt 20)]), (''b'', [(''length'', PInt 31)]),
                  (''c'', [(''length'', PInt 12)]), (''d'', [(''length'', PInt 3)])]\<rparr>"
  let ?flt = "Some [(''length'', PDict [(''$gte'', PInt 10)])]"
  have k: "(0::int) \<le> 2" by simp
  have m: "map_of distance_metrics ''dot_product'' = Some dot_product_similarity"
    by (simp add: distance_metrics_def)
  have ok: "\<forall>entry \<in> set (vectors ?st).
      filter_evaluates ?flt (dict_get (metadata ?st) (fst entry) [])
      \<and> (filter_admits ?flt (dict_get (metadata ?st) (fst entry) []) \<longrightarrow>
           (\<exists>score. dot_product_similarity [1, 0] (snd entry) = Inr score))"
    by (simp add: filter_evaluates_def dict_get_def or_else_def op_test_def
        dot_product_similarity_def np_dot_def)
  have n: "length (admitted_entries ?flt ?st) = 3"
    by (simp add: admitted_entries_def filter_admits_def key_admitted_def op_admits_def
        dict_get_def)
  from search_top_k [OF k m ok, of True]
  obtain results where
    "fst (search [1, 0] 2 ''dot_product'' ?flt True ?st) = Inr (With_scores results)"
    "length results = min (nat 2) (length (admitted_entries ?flt ?st))"
    by auto
  with n have "\<exists>results.
      fst (search [1, 0] 2 ''dot_product'' ?flt True ?st) = Inr (With_scores results)
      \<and> length results = 2"
    by simp
  moreover have "fst (search [1, 0] 2 ''dot_product'' ?flt True ?st)
      = Inr (With_scores [(''c'', 3, [(''length'', PInt 12)]), (''b'', 2, [(''length'', PInt 31)])])"
    by (simp add: search_def distance_metrics_def excluded_def matches_filter_def dict_get_def
        py_sorted_def py_slice_to_def slice_index_def dot_product_similarity_def np_dot_def
        or_else_def op_test_def)
  ultimately show ?thesis by blast
qed

text \<open>
  The claim as the specification states it, for every \<open>k\<close> and every query, fails in
  two ways. A negative \<open>k\<close> makes the slice \<^verbatim>\<open>sorted_scores[:k]\<close> drop elements from the
  end: with three entries and \<open>k = -1\<close> two results come back, more than
  \<open>min k 3\<close>. And a query whose length differs from a stored vector's makes the metric
  raise, so that nothing is returned.
\<close>

theorem search_negative_k_counterexample:
  "fst (search [1, 0] (- 1) ''dot_product'' None True
     \<lparr>vectors = [(''a'', [1, 1]), (''b'', [2, 0]), (''c'', [3, 0])], metadata = []\<rparr>)
   = Inr (With_scores [(''c'', 3, []), (''b'', 2, [])])
   \<and> \<not> int (result_length (With_scores [(''c'', 3, []), (''b'', 2, [])])) \<le> min (- 1) 3
   \<and> fst (search [1] 2 ''dot_product'' None True
     \<lparr>vectors = [(''a'', [1, 1]), (''b'', [2, 0]), (''c'', [3, 0])], metadata = []\<rparr>)
   = Inl Shapes_not_aligned"
  by (simp add: search_def distance_metrics_def excluded_def dict_get_def
      py_sorted_def py_slice_to_def slice_index_def dot_product_similarity_def np_dot_def)

end
